theory Spec2Isabelle
  imports Main "HOL-Library.Word"
begin

section \<open>Go strings as byte lists\<close>

text \<open>
  A Go \<^verbatim>\<open>string\<close> is a sequence of bytes; it is embedded as a \<^typ>\<open>string\<close>
  (a list of 8-bit characters). The functions of package \<^verbatim>\<open>strings\<close> that the
  program calls are embedded after their library definitions.
\<close>

text \<open>\<^verbatim>\<open>strings.HasPrefix(s, prefix)\<close>:
  \<^verbatim>\<open>len(s) >= len(prefix) && s[:len(prefix)] == prefix\<close>.\<close>

definition HasPrefix :: "string \<Rightarrow> string \<Rightarrow> bool" where
  "HasPrefix s p \<longleftrightarrow> length p \<le> length s \<and> take (length p) s = p"

text \<open>\<^verbatim>\<open>strings.TrimPrefix(s, prefix)\<close>: \<^verbatim>\<open>s[len(prefix):]\<close> when \<^verbatim>\<open>s\<close> has the
  prefix, \<^verbatim>\<open>s\<close> otherwise.\<close>

definition TrimPrefix :: "string \<Rightarrow> string \<Rightarrow> string" where
  "TrimPrefix s p = (if HasPrefix s p then drop (length p) s else s)"

text \<open>\<^verbatim>\<open>strings.Contains(s, substr)\<close>: some suffix of \<^verbatim>\<open>s\<close> starts with
  \<^verbatim>\<open>substr\<close>.\<close>

fun Contains :: "string \<Rightarrow> string \<Rightarrow> bool" where
  "Contains [] sub = HasPrefix [] sub"
| "Contains (c # cs) sub = (HasPrefix (c # cs) sub \<or> Contains cs sub)"

text \<open>\<^verbatim>\<open>strings.Split(s, sep)\<close> with a separator of one byte, as at the call
  \<^verbatim>\<open>strings.Split(output, "\n")\<close>: the pieces between the separators, in order; a
  string without separator gives one piece, the empty string gives one empty piece.\<close>

fun Split :: "string \<Rightarrow> char \<Rightarrow> string list" where
  "Split [] sep = [[]]"
| "Split (c # cs) sep =
     (if c = sep then [] # Split cs sep
      else (case Split cs sep of
              [] \<Rightarrow> [[c]]
            | l # ls \<Rightarrow> (c # l) # ls))"

text \<open>\<^verbatim>\<open>strings.Join(elems, sep)\<close> with a separator of one byte; the program does
  not call it, the example operating system below joins path elements with it.\<close>

fun Join :: "string list \<Rightarrow> char \<Rightarrow> string" where
  "Join [] sep = []"
| "Join [l] sep = l"
| "Join (l # l' # ls) sep = l @ sep # Join (l' # ls) sep"

definition NL :: char where
  "NL = CHR 0x0A"

text \<open>\<^verbatim>\<open>strings.HasSuffix(s, suffix)\<close>:
  \<^verbatim>\<open>len(s) >= len(suffix) && s[len(s)-len(suffix):] == suffix\<close>.\<close>

definition HasSuffix :: "string \<Rightarrow> string \<Rightarrow> bool" where
  "HasSuffix s p \<longleftrightarrow> length p \<le> length s \<and> drop (length s - length p) s = p"

text \<open>
  \<^verbatim>\<open>strings.ReplaceAll(s, old, new)\<close> for a non-empty \<^verbatim>\<open>old\<close>, as at both calls of
  the program (\<^verbatim>\<open>"<br/>"\<close> and \<^verbatim>\<open>"<br>"\<close>): the occurrences of \<^verbatim>\<open>old\<close> are
  found from left to right and do not overlap. The library's case of an empty
  \<^verbatim>\<open>old\<close> is not embedded: the function has no equation for it.
\<close>

fun ReplaceAll :: "string \<Rightarrow> string \<Rightarrow> string \<Rightarrow> string" where
  "ReplaceAll [] (c # cs) new = []"
| "ReplaceAll (x # xs) (c # cs) new =
     (if HasPrefix (x # xs) (c # cs) then new @ ReplaceAll (drop (length cs) xs) (c # cs) new
      else x # ReplaceAll xs (c # cs) new)"

text \<open>
  \<^verbatim>\<open>strings.TrimSpace(s)\<close> removes the leading and the trailing white space as
  \<^verbatim>\<open>unicode.IsSpace\<close> defines it. On bytes, a white-space code point is one of the
  following UTF-8 sequences: the six ASCII ones (tab, line feed, vertical tab, form
  feed, carriage return, space), U+0085, U+00A0, U+1680, U+2000 to U+200A, U+2028,
  U+2029, U+202F, U+205F and U+3000. A byte that starts no valid sequence decodes to
  the replacement character, which is not white space, so trimming stops there.
\<close>

definition space_seqs :: "string list" where
  "space_seqs =
     [[CHR 0x09], [CHR 0x0A], [CHR 0x0B], [CHR 0x0C], [CHR 0x0D], [CHR 0x20],
      [CHR 0xC2, CHR 0x85], [CHR 0xC2, CHR 0xA0],
      [CHR 0xE1, CHR 0x9A, CHR 0x80],
      [CHR 0xE2, CHR 0x80, CHR 0x80], [CHR 0xE2, CHR 0x80, CHR 0x81],
      [CHR 0xE2, CHR 0x80, CHR 0x82], [CHR 0xE2, CHR 0x80, CHR 0x83],
      [CHR 0xE2, CHR 0x80, CHR 0x84], [CHR 0xE2, CHR 0x80, CHR 0x85],
      [CHR 0xE2, CHR 0x80, CHR 0x86], [CHR 0xE2, CHR 0x80, CHR 0x87],
      [CHR 0xE2, CHR 0x80, CHR 0x88], [CHR 0xE2, CHR 0x80, CHR 0x89],
      [CHR 0xE2, CHR 0x80, CHR 0x8A],
      [CHR 0xE2, CHR 0x80, CHR 0xA8], [CHR 0xE2, CHR 0x80, CHR 0xA9],
      [CHR 0xE2, CHR 0x80, CHR 0xAF],
      [CHR 0xE2, CHR 0x81, CHR 0x9F],
      [CHR 0xE3, CHR 0x80, CHR 0x80]]"

definition leading_space :: "string \<Rightarrow> nat" where
  "leading_space s = (case find (HasPrefix s) space_seqs of None \<Rightarrow> 0 | Some p \<Rightarrow> length p)"

definition trailing_space :: "string \<Rightarrow> nat" where
  "trailing_space s = (case find (HasSuffix s) space_seqs of None \<Rightarrow> 0 | Some p \<Rightarrow> length p)"

function TrimLeft :: "string \<Rightarrow> string" where
  "TrimLeft s = (if leading_space s = 0 then s else TrimLeft (drop (leading_space s) s))"
  by pat_completeness auto
termination
proof (relation "measure length")
  show "wf (measure length)" by simp
next
  fix s :: string
  assume a: "leading_space s \<noteq> 0"
  then obtain p where f: "find (HasPrefix s) space_seqs = Some p"
    by (auto simp: leading_space_def split: option.splits)
  then have "HasPrefix s p" by (auto simp: find_Some_iff)
  moreover have "leading_space s = length p" using f by (simp add: leading_space_def)
  ultimately have "s \<noteq> []" using a by (auto simp: HasPrefix_def)
  then show "(drop (leading_space s) s, s) \<in> measure length" using a by simp
qed

function TrimRight :: "string \<Rightarrow> string" where
  "TrimRight s =
     (if trailing_space s = 0 then s else TrimRight (take (length s - trailing_space s) s))"
  by pat_completeness auto
termination
proof (relation "measure length")
  show "wf (measure length)" by simp
next
  fix s :: string
  assume a: "trailing_space s \<noteq> 0"
  then obtain p where f: "find (HasSuffix s) space_seqs = Some p"
    by (auto simp: trailing_space_def split: option.splits)
  then have "HasSuffix s p" by (auto simp: find_Some_iff)
  moreover have "trailing_space s = length p" using f by (simp add: trailing_space_def)
  ultimately have "s \<noteq> []" using a by (auto simp: HasSuffix_def)
  then show "(take (length s - trailing_space s) s, s) \<in> measure length" using a by simp
qed

declare TrimLeft.simps [simp del] TrimRight.simps [simp del]

definition TrimSpace :: "string \<Rightarrow> string" where
  "TrimSpace s = TrimRight (TrimLeft s)"

text \<open>\<^verbatim>\<open>fmt.Sprintf("%d", n)\<close>: the decimal digits, after a minus sign when
  \<^verbatim>\<open>n\<close> is negative.\<close>

function decimal_nat :: "nat \<Rightarrow> string" where
  "decimal_nat n =
     (if n < 10 then [''0123456789'' ! n]
      else decimal_nat (n div 10) @ [''0123456789'' ! (n mod 10)])"
  by pat_completeness auto
termination
  by (relation "measure id") auto

declare decimal_nat.simps [simp del]

definition Sprintf_d :: "int \<Rightarrow> string" where
  "Sprintf_d n = (if n < 0 then CHR ''-'' # decimal_nat (nat (- n)) else decimal_nat (nat n))"

text \<open>
  \<^verbatim>\<open>url.QueryEscape\<close>: letters, digits and \<^verbatim>\<open>-_.~\<close> stay, a space becomes
  \<^verbatim>\<open>+\<close>, every other byte becomes \<^verbatim>\<open>%XX\<close> in upper-case hexadecimal.
  \<^verbatim>\<open>url.Values{"q": {query}}.Encode()\<close> is \<^verbatim>\<open>q=\<close> and the escaped query.
\<close>

definition shouldEscape :: "char \<Rightarrow> bool" where
  "shouldEscape c \<longleftrightarrow>
     (let n = (of_char c :: nat) in
      \<not> ((97 \<le> n \<and> n \<le> 122) \<or> (65 \<le> n \<and> n \<le> 90) \<or> (48 \<le> n \<and> n \<le> 57)
         \<or> c \<in> set ''-_.~''))"

fun QueryEscape :: "string \<Rightarrow> string" where
  "QueryEscape [] = []"
| "QueryEscape (c # cs) =
     (if c = CHR '' '' then ''+''
      else if shouldEscape c
      then [CHR ''%'', ''0123456789ABCDEF'' ! (of_char c div 16), ''0123456789ABCDEF'' ! (of_char c mod 16)]
      else [c]) @ QueryEscape cs"

definition Encode_q :: "string \<Rightarrow> string" where
  "Encode_q query = ''q='' @ QueryEscape query"

text \<open>Errors are their messages. \<^verbatim>\<open>errors.Wrap(err, message)\<close> of package
  \<^verbatim>\<open>github.com/pkg/errors\<close> has the message \<^verbatim>\<open>message + ": " + err.Error()\<close>.\<close>

definition Wrap :: "string \<Rightarrow> string \<Rightarrow> string" where
  "Wrap err message = message @ '': '' @ err"

section \<open>The regular expression of the playback check\<close>

text \<open>
  \<^verbatim>\<open>regexp.MustCompile(`status (playing|paused)`).MatchString(outputStr)\<close>.
  The pattern uses literals, concatenation and alternation only; \<open>rmatch r s\<close> lists the
  rests of \<open>s\<close> after each way \<open>r\<close> matches at its start, and \<open>MatchString\<close> is the
  unanchored search of package \<^verbatim>\<open>regexp\<close>: a match may start at any position.
\<close>

datatype regexp = Lit string | Cat regexp regexp | Alt regexp regexp

fun rmatch :: "regexp \<Rightarrow> string \<Rightarrow> string list" where
  "rmatch (Lit l) s = (if HasPrefix s l then [drop (length l) s] else [])"
| "rmatch (Cat a b) s = concat (map (rmatch b) (rmatch a s))"
| "rmatch (Alt a b) s = rmatch a s @ rmatch b s"

fun MatchString :: "regexp \<Rightarrow> string \<Rightarrow> bool" where
  "MatchString r [] = (rmatch r [] \<noteq> [])"
| "MatchString r (c # cs) = (rmatch r (c # cs) \<noteq> [] \<or> MatchString r cs)"

definition status_re :: regexp where
  "status_re = Cat (Lit ''status '') (Alt (Lit ''playing'') (Lit ''paused''))"

section \<open>main.go: the one-shot program\<close>

text \<open>
  \<^verbatim>\<open>parseCmusOutput\<close>: the loop over the lines assigns to the three named results;
  \<open>parse_line\<close> is one iteration, on the triple (artist, album, title), and the loop
  is the left fold over the lines from three empty strings.
\<close>

definition parse_line :: "string \<times> string \<times> string \<Rightarrow> string \<Rightarrow> string \<times> string \<times> string" where
  "parse_line st line =
     (case st of (artist, album, title) \<Rightarrow>
        if HasPrefix line ''tag artist '' then (TrimPrefix line ''tag artist '', album, title)
        else if HasPrefix line ''tag album '' then (artist, TrimPrefix line ''tag album '', title)
        else if HasPrefix line ''tag title '' then (artist, album, TrimPrefix line ''tag title '')
        else (artist, album, title))"

definition parseCmusOutput :: "string \<Rightarrow> string \<times> string \<times> string" where
  "parseCmusOutput output = foldl parse_line ([], [], []) (Split output NL)"

text \<open>\<^verbatim>\<open>fetchLyrics\<close> of main.go: the formatted placeholder and a nil error
  (\<open>None\<close>). An error is its message.\<close>

definition fetchLyrics :: "string \<Rightarrow> string \<Rightarrow> string \<Rightarrow> string \<times> string option" where
  "fetchLyrics artist album track =
     (''Lyrics placeholder for '' @ artist @ '' - '' @ track @ '' from the album '' @ album, None)"

text \<open>
  An HTTP request (\<^verbatim>\<open>http.Request\<close>: method, URL and header) and an HTTP response
  (status code and body).
\<close>

record request =
  Method :: string
  URL :: string
  Header :: "(string \<times> string) list"

record response =
  StatusCode :: int
  Body :: string

text \<open>
  What the program does, in order. \<^verbatim>\<open>main\<close> of main.go runs the player query,
  prints, and calls \<^verbatim>\<open>fetchLyrics\<close>. The provider client of genius.go enters its
  three stages (\<^verbatim>\<open>search\<close>, \<^verbatim>\<open>getSong\<close>, \<^verbatim>\<open>getLyrics\<close>, each with its
  argument) and sends HTTP requests (\<^verbatim>\<open>http.DefaultClient.Do\<close>).
\<close>

datatype effect =
    Exec string "string list"
  | Print string
  | CallFetchLyrics string string string
  | CallSearch string
  | CallGetSong "64 word"
  | CallGetLyrics string
  | Send request

fun is_remote :: "effect \<Rightarrow> bool" where
  "is_remote (CallSearch q) = True"
| "is_remote (CallGetSong i) = True"
| "is_remote (CallGetLyrics p) = True"
| "is_remote (Send r) = True"
| "is_remote e = False"

text \<open>
  \<^verbatim>\<open>main\<close>, given what \<^verbatim>\<open>cmd.CombinedOutput()\<close> returns: the output and the
  error (\<open>None\<close> for nil). The result is the list of effects in program order.
\<close>

definition main :: "string \<times> string option \<Rightarrow> effect list" where
  "main r =
     Exec ''cmus-remote'' [''-Q''] #
     (case snd r of
        Some err \<Rightarrow> [Print (''Error executing cmus-remote: '' @ err @ [NL])]
      | None \<Rightarrow>
          let outputStr = fst r in
          if \<not> MatchString status_re outputStr
          then [Print (''No song is currently playing in cmus'' @ [NL])]
          else
            (case parseCmusOutput outputStr of (artist, album, title) \<Rightarrow>
               if artist = [] \<or> title = []
               then [Print (''Could not find artist or title information for the current song'' @ [NL])]
               else
                 CallFetchLyrics artist album title #
                 (case fetchLyrics artist album title of
                    (lyrics, Some err) \<Rightarrow> [Print (''Error fetching lyrics: '' @ err @ [NL])]
                  | (lyrics, None) \<Rightarrow>
                      [Print ([NL] @ ''Now playing: '' @ artist @ '' - '' @ title @ [NL])] @
                      (if album \<noteq> [] then [Print (''Album: '' @ album @ [NL])] else []) @
                      [Print ([NL] @ ''Lyrics:'' @ [NL] @ [NL]), Print (lyrics @ [NL])])))"

section \<open>genius.go: the lyrics provider client\<close>

subsection \<open>The parsed document\<close>

text \<open>
  A node of \<^verbatim>\<open>golang.org/x/net/html\<close>: its type, its data (the tag name of an
  element, the text of a text node), its attributes as pairs of key and value, and its
  children in document order. \<open>addr\<close> is the node's address: the program holds nodes
  by pointer, and two selections can reach the same node.
\<close>

datatype node_type =
  ErrorNode | TextNode | DocumentNode | ElementNode | CommentNode | DoctypeNode | RawNode

datatype node =
  Node (addr: nat) (Type: node_type) (Data: string) (Attr: "(string \<times> string) list")
       (children: "node list")

text \<open>
  The attribute selector \<^verbatim>\<open>[key="val"]\<close>: an element node with an attribute of that
  key and that value.
\<close>

definition attr_equals :: "string \<Rightarrow> string \<Rightarrow> node \<Rightarrow> bool" where
  "attr_equals key val n \<longleftrightarrow> Type n = ElementNode \<and> (key, val) \<in> set (Attr n)"

definition lyrics_container :: "node \<Rightarrow> bool" where
  "lyrics_container = attr_equals ''data-lyrics-container'' ''true''"

definition exclude_from_selection :: "node \<Rightarrow> bool" where
  "exclude_from_selection = attr_equals ''data-exclude-from-selection'' ''true''"

text \<open>
  \<open>MatchAll m n\<close>: the node \<open>n\<close> if it matches, then the matching nodes below it, in
  document order. \<^verbatim>\<open>Selection.Find\<close> on one node collects \<open>MatchAll\<close> of its
  element children: the matching nodes strictly below it.
\<close>

fun MatchAll :: "(node \<Rightarrow> bool) \<Rightarrow> node \<Rightarrow> node list" where
  "MatchAll m (Node a ty d at ks) =
     (if m (Node a ty d at ks) then [Node a ty d at ks] else []) @ concat (map (MatchAll m) ks)"

definition Find :: "(node \<Rightarrow> bool) \<Rightarrow> node \<Rightarrow> node list" where
  "Find m n = concat (map (MatchAll m) (filter (\<lambda>c. Type c = ElementNode) (children n)))"

text \<open>
  \<^verbatim>\<open>Selection.Remove\<close> unlinks each selected node from its parent, in the document
  that all selections share. Unlinking is the only mutation the program makes, so the
  state of the document is the list \<open>R\<close> of the addresses unlinked so far, and what a
  pointer to a node \<open>n\<close> of the parsed document shows in that state is \<open>view R n\<close>:
  \<open>n\<close> without the nodes below it that were unlinked.
\<close>

fun view :: "nat list \<Rightarrow> node \<Rightarrow> node" where
  "view R (Node a ty d at ks) =
     Node a ty d at (concat (map (\<lambda>k. if addr k \<in> set R then [] else [view R k]) ks))"

text \<open>
  \<^verbatim>\<open>Selection.Html\<close>: the rendering (\<^verbatim>\<open>html.Render\<close>) of each child of the first
  selected node, concatenated; an error (\<open>None\<close>) as soon as one rendering fails.
\<close>

fun render_all :: "(node \<Rightarrow> string option) \<Rightarrow> node list \<Rightarrow> string option" where
  "render_all r [] = Some []"
| "render_all r (c # cs) =
     (case r c of
        None \<Rightarrow> None
      | Some h \<Rightarrow> (case render_all r cs of None \<Rightarrow> None | Some t \<Rightarrow> Some (h @ t)))"

definition Html :: "(node \<Rightarrow> string option) \<Rightarrow> node \<Rightarrow> string option" where
  "Html r n = render_all r (children n)"

text \<open>\<^verbatim>\<open>Selection.Text\<close>: the data of the text nodes at and below the node, in
  document order.\<close>

fun Text :: "node \<Rightarrow> string" where
  "Text (Node a ty d at ks) = (if ty = TextNode then d else []) @ concat (map Text ks)"

subsection \<open>The remote world\<close>

text \<open>
  What the client takes from outside the repository: whether \<^verbatim>\<open>http.NewRequestWithContext\<close>
  accepts a URL, what \<^verbatim>\<open>http.DefaultClient.Do\<close> answers to a request (a transport
  error, a cancelled context included, or a response), what the JSON decoder makes of
  a body, what \<^verbatim>\<open>goquery.NewDocumentFromReader\<close> parses from a text and what
  \<^verbatim>\<open>html.Render\<close> writes for a node. In the two response structs the wrapping
  fields (\<^verbatim>\<open>Response\<close>, \<^verbatim>\<open>Song\<close>) are flattened; the field \<^verbatim>\<open>Type\<close> of a
  hit is \<open>Type_hit\<close>, apart from the type of a node.
\<close>

record hit_result =
  ID :: "64 word"
  Title :: string
  ArtistNames :: string

record hit =
  Type_hit :: string
  Result :: hit_result

record SearchResponse =
  Hits :: "hit list"

record GetSongResponse =
  Path :: string

record world =
  url_error :: "string \<Rightarrow> string option"
  Do :: "request \<Rightarrow> string + response"
  decode_search :: "string \<Rightarrow> string + SearchResponse"
  decode_song :: "string \<Rightarrow> string + GetSongResponse"
  NewDocumentFromReader :: "string \<Rightarrow> string + node"
  Render :: "node \<Rightarrow> string option"

record GeniusAPIClient =
  accessToken :: string

definition NewGeniusAPIClient :: "string \<Rightarrow> GeniusAPIClient" where
  "NewGeniusAPIClient token = \<lparr>accessToken = token\<rparr>"

definition NewRequestWithContext :: "world \<Rightarrow> string \<Rightarrow> string \<Rightarrow> string + request" where
  "NewRequestWithContext w method url =
     (case url_error w url of
        Some err \<Rightarrow> Inl err
      | None \<Rightarrow> Inr \<lparr>Method = method, URL = url, Header = []\<rparr>)"

text \<open>\<^verbatim>\<open>req.Header.Set(key, value)\<close>: the entry of the key is replaced.\<close>

definition Header_Set :: "string \<Rightarrow> string \<Rightarrow> request \<Rightarrow> request" where
  "Header_Set key val req =
     req\<lparr>Header := (key, val) # filter (\<lambda>kv. fst kv \<noteq> key) (Header req)\<rparr>"

subsection \<open>The three stages\<close>

text \<open>
  Each stage returns the effects it made, in order, and its result: \<open>Inl\<close> an error,
  \<open>Inr\<close> a value.
\<close>

definition search :: "world \<Rightarrow> GeniusAPIClient \<Rightarrow> string \<Rightarrow> effect list \<times> (string + SearchResponse)" where
  "search w c query =
     (let baseURL = ''https://api.genius.com/search'';
          requestURL = baseURL @ ''?'' @ Encode_q query
      in case NewRequestWithContext w ''GET'' requestURL of
           Inl err \<Rightarrow> ([CallSearch query], Inl (Wrap err ''create request''))
         | Inr req0 \<Rightarrow>
             let req = Header_Set ''Authorization'' (''Bearer '' @ accessToken c) req0 in
             (case Do w req of
                Inl err \<Rightarrow> ([CallSearch query, Send req], Inl (Wrap err ''send request''))
              | Inr resp \<Rightarrow>
                  if StatusCode resp \<noteq> 200
                  then ([CallSearch query, Send req],
                        Inl (''unexpected status code: '' @ Sprintf_d (StatusCode resp)))
                  else (case decode_search w (Body resp) of
                          Inl err \<Rightarrow> ([CallSearch query, Send req], Inl (Wrap err ''decode response''))
                        | Inr searchResp \<Rightarrow> ([CallSearch query, Send req], Inr searchResp))))"

definition getSong :: "world \<Rightarrow> GeniusAPIClient \<Rightarrow> 64 word \<Rightarrow> effect list \<times> (string + GetSongResponse)" where
  "getSong w c i =
     (let requestURL = ''https://api.genius.com/songs/'' @ Sprintf_d (sint i)
      in case NewRequestWithContext w ''GET'' requestURL of
           Inl err \<Rightarrow> ([CallGetSong i], Inl (Wrap err ''create request''))
         | Inr req0 \<Rightarrow>
             let req = Header_Set ''Authorization'' (''Bearer '' @ accessToken c) req0 in
             (case Do w req of
                Inl err \<Rightarrow> ([CallGetSong i, Send req], Inl (Wrap err ''send request''))
              | Inr resp \<Rightarrow>
                  if StatusCode resp \<noteq> 200
                  then ([CallGetSong i, Send req],
                        Inl (''unexpected status code: '' @ Sprintf_d (StatusCode resp)))
                  else (case decode_song w (Body resp) of
                          Inl err \<Rightarrow> ([CallGetSong i, Send req], Inl (Wrap err ''decode response''))
                        | Inr songResp \<Rightarrow> ([CallGetSong i, Send req], Inr songResp))))"

text \<open>
  The scrape of \<^verbatim>\<open>getLyrics\<close>. \<open>each_container\<close> is the body of the callback of
  \<^verbatim>\<open>Each\<close> on one selected container \<open>s\<close>, from the document state \<open>R\<close> and the
  builder \<open>lyricsText\<close>: it unlinks the excluded nodes found below the container as
  it shows now, renders the container's content, and appends it unless the rendering
  failed. \<open>scrape\<close> runs it over the containers that \<^verbatim>\<open>doc.Find\<close> selected, in
  document order, and returns the builder's text.
\<close>

definition each_container ::
    "world \<Rightarrow> nat list \<times> string \<Rightarrow> node \<Rightarrow> nat list \<times> string" where
  "each_container w st s =
     (case st of (R, lyricsText) \<Rightarrow>
        let R' = R @ map addr (Find exclude_from_selection (view R s)) in
        (case Html (Render w) (view R' s) of
           None \<Rightarrow> (R', lyricsText)
         | Some html \<Rightarrow> (R', lyricsText @ html)))"

definition scrape :: "world \<Rightarrow> node \<Rightarrow> string" where
  "scrape w doc = snd (foldl (each_container w) ([], []) (Find lyrics_container doc))"

text \<open>The normalization of \<^verbatim>\<open>getLyrics\<close>, from the builder's text to the clean
  lyrics.\<close>

definition br_to_newline :: "string \<Rightarrow> string" where
  "br_to_newline lyricsText = ReplaceAll (ReplaceAll lyricsText ''<br/>'' [NL]) ''<br>'' [NL]"

definition normalize :: "world \<Rightarrow> string \<Rightarrow> string + string" where
  "normalize w lyricsText =
     (let lyrics = br_to_newline lyricsText
      in case NewDocumentFromReader w (''<div>'' @ lyrics @ ''</div>'') of
           Inl err \<Rightarrow> Inl (Wrap err ''parse lyrics HTML'')
         | Inr lyricDoc \<Rightarrow> Inr (TrimSpace (Text lyricDoc)))"

text \<open>What \<^verbatim>\<open>getLyrics\<close> does with the parsed page: the scrape, the check of the
  builder's length, and the normalization.\<close>

definition scrape_page :: "world \<Rightarrow> node \<Rightarrow> string + string" where
  "scrape_page w doc =
     (let lyricsText = scrape w doc in
      if length lyricsText = 0 then Inl ''no lyrics found on page''
      else normalize w lyricsText)"

definition getLyrics :: "world \<Rightarrow> GeniusAPIClient \<Rightarrow> string \<Rightarrow> effect list \<times> (string + string)" where
  "getLyrics w c path =
     (let fullURL = ''https://genius.com'' @ path
      in case NewRequestWithContext w ''GET'' fullURL of
           Inl err \<Rightarrow> ([CallGetLyrics path], Inl (Wrap err ''create request''))
         | Inr req \<Rightarrow>
             (case Do w req of
                Inl err \<Rightarrow> ([CallGetLyrics path, Send req], Inl (Wrap err ''send request''))
              | Inr resp \<Rightarrow>
                  if StatusCode resp \<noteq> 200
                  then ([CallGetLyrics path, Send req],
                        Inl (''unexpected status code: '' @ Sprintf_d (StatusCode resp)))
                  else (case NewDocumentFromReader w (Body resp) of
                          Inl err \<Rightarrow> ([CallGetLyrics path, Send req], Inl (Wrap err ''parse HTML''))
                        | Inr doc \<Rightarrow> ([CallGetLyrics path, Send req], scrape_page w doc))))"

definition GetLyrics :: "world \<Rightarrow> GeniusAPIClient \<Rightarrow> string \<Rightarrow> string \<Rightarrow> effect list \<times> (string + string)" where
  "GetLyrics w c artist title =
     (case search w c (artist @ '' '' @ title) of
        (t1, Inl err) \<Rightarrow> (t1, Inl (Wrap err ''search genius api''))
      | (t1, Inr searchResp) \<Rightarrow>
          (case Hits searchResp of
             [] \<Rightarrow> (t1, Inl ''no results'')
           | h # _ \<Rightarrow>
               (case getSong w c (ID (Result h)) of
                  (t2, Inl err) \<Rightarrow> (t1 @ t2, Inl (Wrap err ''get song from genius api''))
                | (t2, Inr songResp) \<Rightarrow>
                    (case getLyrics w c (Path songResp) of
                       (t3, Inl err) \<Rightarrow>
                         (t1 @ t2 @ t3, Inl (Wrap err ''scrape lyrics from genius webpage''))
                     | (t3, Inr lyrics) \<Rightarrow> (t1 @ t2 @ t3, Inr lyrics)))))"

section \<open>config.go: the configuration file\<close>

text \<open>
  What \<^verbatim>\<open>LoadConfig\<close> takes from the operating system: the environment, the home
  directory, \<^verbatim>\<open>filepath.Join\<close>, \<^verbatim>\<open>os.MkdirAll\<close> (\<open>None\<close>: no error),
  \<^verbatim>\<open>os.ReadFile\<close> once the directory is there, and \<^verbatim>\<open>json.Unmarshal\<close> into a
  \<^verbatim>\<open>Config\<close> (the configuration it leaves and its error). An error of the file system
  carries whether \<^verbatim>\<open>os.IsNotExist\<close> holds of it.
\<close>

record Config =
  GeniusAccessToken :: string

datatype os_error = OsError (IsNotExist: bool) (Error: string)

record os_world =
  Getenv :: "string \<Rightarrow> string"
  UserHomeDir :: "string + string"
  Join_path :: "string list \<Rightarrow> string"
  MkdirAll :: "string \<Rightarrow> os_error option"
  ReadFile :: "string \<Rightarrow> os_error + string"
  Unmarshal :: "string \<Rightarrow> Config \<Rightarrow> Config \<times> string option"

definition config_home :: "os_world \<Rightarrow> string + string" where
  "config_home w =
     (let configHome = Getenv w ''XDG_CONFIG_HOME'' in
      if configHome = []
      then (case UserHomeDir w of
              Inl err \<Rightarrow> Inl (Wrap err ''could not determine home directory'')
            | Inr homeDir \<Rightarrow> Inr (Join_path w [homeDir, ''.config'']))
      else Inr configHome)"

definition getConfigPath :: "os_world \<Rightarrow> string + string" where
  "getConfigPath w =
     (case config_home w of
        Inl err \<Rightarrow> Inl err
      | Inr configHome \<Rightarrow>
          let appConfigDir = Join_path w [configHome, ''lyrics''] in
          (case MkdirAll w appConfigDir of
             Some err \<Rightarrow> Inl (Wrap (Error err) ''create config directory'')
           | None \<Rightarrow> Inr (Join_path w [appConfigDir, ''config.json''])))"

definition LoadConfig :: "os_world \<Rightarrow> Config \<times> string option" where
  "LoadConfig w =
     (let config = \<lparr>GeniusAccessToken = []\<rparr> in
      case getConfigPath w of
        Inl err \<Rightarrow> (config, Some (Wrap err ''get config path''))
      | Inr configPath \<Rightarrow>
          (case ReadFile w configPath of
             Inl err \<Rightarrow>
               if IsNotExist err then (config, None)
               else (config, Some (Wrap (Error err) ''read config file''))
           | Inr data \<Rightarrow>
               (case Unmarshal w data config of
                  (config', Some err) \<Rightarrow> (config', Some (Wrap err ''parse config file''))
                | (config', None) \<Rightarrow> (config', None))))"

section \<open>main.go of the terminal program: the model and its update\<close>

text \<open>
  The viewport of package \<^verbatim>\<open>bubbles/viewport\<close> as far as the program's state needs
  it: its width, its height and the content set by \<^verbatim>\<open>SetContent\<close>. The scroll offset
  is left out: the key bindings, \<^verbatim>\<open>GotoTop\<close> and the viewport's own \<^verbatim>\<open>Update\<close>
  change nothing else. \<open>center\<close> stands for the rendering of one line, centred in a
  given width, by package \<^verbatim>\<open>lipgloss\<close>.
\<close>

record viewport_Model =
  Width :: int
  Height :: int
  Content :: string

definition viewport_New :: "int \<Rightarrow> int \<Rightarrow> viewport_Model" where
  "viewport_New w h = \<lparr>Width = w, Height = h, Content = []\<rparr>"

definition SetContent :: "string \<Rightarrow> viewport_Model \<Rightarrow> viewport_Model" where
  "SetContent s v = v\<lparr>Content := s\<rparr>"

text \<open>
  The struct \<^verbatim>\<open>model\<close>; its fields carry the prefix \<open>m_\<close>. The field
  \<^verbatim>\<open>lastChecked\<close> is left out and \<^verbatim>\<open>currentSongID\<close> is kept: the program neither
  assigns nor reads either of them.
\<close>

record model =
  viewport :: viewport_Model
  m_showHelpFooter :: bool
  m_geniusAPIClient :: GeniusAPIClient
  m_statusBar :: string
  m_artist :: string
  m_album :: string
  m_title :: string
  m_lyrics :: string
  m_ready :: bool
  m_currentSongID :: string

text \<open>The messages of the event loop and the commands that \<^verbatim>\<open>Update\<close> returns. A
  command runs beside the loop and delivers one message when it completes.\<close>

datatype msg =
    KeyMsg string
  | WindowSizeMsg int int
  | SongInfoMsg string string string "string option"
  | SongLyricsMsg string string string string "string option"
  | CheckCmusTick

datatype cmd =
    Quit
  | CheckCmusCmd
  | Tick
  | FetchLyricsCmd GeniusAPIClient string string string

definition updateStatusBar :: "model \<Rightarrow> model" where
  "updateStatusBar m =
     (if m_album m \<noteq> []
      then m\<lparr>m_statusBar := m_artist m @ '' - '' @ m_album m @ '' - '' @ m_title m\<rparr>
      else m\<lparr>m_statusBar := m_artist m @ '' - '' @ m_title m\<rparr>)"

definition centerText :: "(int \<Rightarrow> string \<Rightarrow> string) \<Rightarrow> model \<Rightarrow> string \<Rightarrow> string" where
  "centerText center m s =
     (let centeredLyrics =
            concat (map (\<lambda>line. center (Width (viewport m)) line @ [NL]) (Split s NL))
      in if length centeredLyrics > 0
         then take (length centeredLyrics - 1) centeredLyrics
         else centeredLyrics)"

definition updateLyrics :: "(int \<Rightarrow> string \<Rightarrow> string) \<Rightarrow> string \<Rightarrow> model \<Rightarrow> model" where
  "updateLyrics center lyrics m = m\<lparr>viewport := SetContent (centerText center m lyrics) (viewport m)\<rparr>"

text \<open>
  \<^verbatim>\<open>Update\<close>: the new model and the commands batched, in order. The case of
  \<^verbatim>\<open>songLyricsMsg\<close> reads the lyrics and the error of the message only.
\<close>

fun Update :: "(int \<Rightarrow> string \<Rightarrow> string) \<Rightarrow> model \<Rightarrow> msg \<Rightarrow> model \<times> cmd list" where
  "Update center m (KeyMsg k) =
     (if k = ''q'' \<or> k = ''ctrl+c'' then (m, [Quit])
      else if k = ''r'' then (m, [CheckCmusCmd])
      else (m, []))"
| "Update center m (WindowSizeMsg w h) =
     (let headerHeight = 1; footerHeight = 1 in
      if \<not> m_ready m
      then (m\<lparr>viewport := SetContent (m_lyrics m) (viewport_New w (h - headerHeight - footerHeight)),
               m_ready := True\<rparr>, [])
      else (let m' = m\<lparr>viewport := (viewport m)\<lparr>Width := w, Height := h - headerHeight - footerHeight\<rparr>\<rparr>
            in (updateLyrics center (m_lyrics m') m', [])))"
| "Update center m (SongInfoMsg artist album title err) =
     (let m' =
            (if m_artist m \<noteq> artist \<or> m_title m \<noteq> title
             then (let m1 = updateStatusBar (m\<lparr>m_artist := artist, m_album := album, m_title := title\<rparr>)
                   in m1\<lparr>viewport := SetContent (centerText center m1 ''Loading...'') (viewport m1)\<rparr>)
             else m)
      in (m', [Tick, FetchLyricsCmd (m_geniusAPIClient m') (m_artist m') (m_album m') (m_title m')]))"
| "Update center m (SongLyricsMsg artist album title lyrics err) =
     (case err of
        Some e \<Rightarrow> (m\<lparr>viewport := SetContent e (viewport m)\<rparr>, [])
      | None \<Rightarrow> (updateLyrics center lyrics (m\<lparr>m_lyrics := lyrics\<rparr>), []))"
| "Update center m CheckCmusTick = (m, [CheckCmusCmd])"

text \<open>\<^verbatim>\<open>fetchLyricsCmd\<close>: the message the command delivers, given the provider's
  answers \<open>w\<close> when it runs.\<close>

definition fetchLyricsCmd :: "world \<Rightarrow> GeniusAPIClient \<Rightarrow> string \<Rightarrow> string \<Rightarrow> string \<Rightarrow> msg" where
  "fetchLyricsCmd w client artist album title =
     (case snd (GetLyrics w client artist title) of
        Inl err \<Rightarrow>
          SongLyricsMsg artist album title (''Error fetching lyrics: '' @ err @ [NL]) (Some err)
      | Inr lyrics \<Rightarrow> SongLyricsMsg artist album title lyrics None)"

text \<open>\<^verbatim>\<open>checkCmusCmd\<close>: the message the command delivers, given what
  \<^verbatim>\<open>cmd.CombinedOutput()\<close> returns when it runs.\<close>

definition checkCmusCmd :: "string \<times> string option \<Rightarrow> msg" where
  "checkCmusCmd r =
     (case snd r of
        Some err \<Rightarrow> SongInfoMsg [] [] ''Error: cmus not running or not available'' (Some err)
      | None \<Rightarrow>
          let outputStr = fst r in
          if \<not> MatchString status_re outputStr
          then SongInfoMsg [] [] ''No song playing'' None
          else
            (case parseCmusOutput outputStr of (artist, album, title) \<Rightarrow>
               if artist = [] \<or> title = []
               then SongInfoMsg [] [] ''Unknown song'' (Some ''missing artist or title information'')
               else SongInfoMsg artist album title None))"

text \<open>The model that \<^verbatim>\<open>main\<close> starts the program with; \<^verbatim>\<open>Init\<close> returns
  \<^verbatim>\<open>checkCmusCmd()\<close>.\<close>

definition initialModel :: "bool \<Rightarrow> GeniusAPIClient \<Rightarrow> model" where
  "initialModel footer client =
     \<lparr>viewport = \<lparr>Width = 0, Height = 0, Content = []\<rparr>,
      m_showHelpFooter = footer,
      m_geniusAPIClient = client,
      m_statusBar = ''Loading...'',
      m_artist = [], m_album = [], m_title = [],
      m_lyrics = ''Loading...'',
      m_ready = False,
      m_currentSongID = []\<rparr>"

text \<open>
  The event loop: a pending command completes, in any order, and \<^verbatim>\<open>Update\<close> runs on
  the message it delivers; a key press or a resize arrives from outside. The player's
  answer to a poll and the provider's answers to a fetch are those of the moment.
\<close>

inductive delivers :: "cmd \<Rightarrow> msg \<Rightarrow> bool" where
  poll: "delivers CheckCmusCmd (checkCmusCmd r)"
| tick: "delivers Tick CheckCmusTick"
| fetch: "delivers (FetchLyricsCmd client artist album title) (fetchLyricsCmd w client artist album title)"

inductive step :: "(int \<Rightarrow> string \<Rightarrow> string) \<Rightarrow> model \<times> cmd list \<Rightarrow> model \<times> cmd list \<Rightarrow> bool" where
  completes: "delivers c ms \<Longrightarrow> Update center m ms = (m', new) \<Longrightarrow>
              step center (m, xs @ c # ys) (m', xs @ ys @ new)"
| key: "Update center m (KeyMsg k) = (m', new) \<Longrightarrow> step center (m, cs) (m', cs @ new)"
| resize: "Update center m (WindowSizeMsg w h) = (m', new) \<Longrightarrow> step center (m, cs) (m', cs @ new)"

section \<open>Reference notions\<close>

text \<open>The stages entered, in order: the effects that are calls of a stage.\<close>

fun is_stage_call :: "effect \<Rightarrow> bool" where
  "is_stage_call (CallSearch q) = True"
| "is_stage_call (CallGetSong i) = True"
| "is_stage_call (CallGetLyrics p) = True"
| "is_stage_call e = False"

definition stage_calls :: "effect list \<Rightarrow> effect list" where
  "stage_calls t = filter is_stage_call t"

text \<open>
  Reference notions for the properties of \<^verbatim>\<open>parseCmusOutput\<close>: the last line
  with a given prefix, the value it carries (empty when there is no such line), and the
  lines with one of the three recognized prefixes.
\<close>

definition last_with_prefix :: "string \<Rightarrow> string list \<Rightarrow> string option" where
  "last_with_prefix p lines =
     (case rev (filter (\<lambda>l. HasPrefix l p) lines) of [] \<Rightarrow> None | l # _ \<Rightarrow> Some l)"

definition tag_value :: "string \<Rightarrow> string list \<Rightarrow> string" where
  "tag_value p lines = (case last_with_prefix p lines of None \<Rightarrow> [] | Some l \<Rightarrow> TrimPrefix l p)"

definition recognized :: "string \<Rightarrow> bool" where
  "recognized l \<longleftrightarrow>
     HasPrefix l ''tag artist '' \<or> HasPrefix l ''tag album '' \<or> HasPrefix l ''tag title ''"

definition no_song_output :: "effect list" where
  "no_song_output =
     [Exec ''cmus-remote'' [''-Q''], Print (''No song is currently playing in cmus'' @ [NL])]"

text \<open>One iteration of the loop, seen from one of the three results.\<close>

definition upd :: "string \<Rightarrow> string \<Rightarrow> string \<Rightarrow> string" where
  "upd p acc l = (if HasPrefix l p then TrimPrefix l p else acc)"

text \<open>
  Reference notions for the properties of the scrape: the nodes at and below a node and
  the nodes strictly below it, in document order; a node without the excluded nodes
  below it; and what every parsed document satisfies: its nodes have distinct
  addresses, and only elements have children below the root.
\<close>

fun nodes :: "node \<Rightarrow> node list" where
  "nodes (Node a ty d at ks) = Node a ty d at ks # concat (map nodes ks)"

definition below :: "node \<Rightarrow> node list" where
  "below n = concat (map nodes (children n))"

fun strip_excluded :: "node \<Rightarrow> node" where
  "strip_excluded (Node a ty d at ks) =
     Node a ty d at
       (concat (map (\<lambda>k. if exclude_from_selection k then [] else [strip_excluded k]) ks))"

definition wf_document :: "node \<Rightarrow> bool" where
  "wf_document doc \<longleftrightarrow>
     distinct (map addr (nodes doc))
     \<and> list_all (\<lambda>k. Type k = ElementNode \<or> children k = []) (below doc)"

text \<open>Only elements among the children of a node have children of their own.\<close>

definition leaf_children :: "node \<Rightarrow> bool" where
  "leaf_children n \<longleftrightarrow> (\<forall>k \<in> set (children n). Type k = ElementNode \<or> children k = [])"

text \<open>The invariant of the scrape: every unlinked address of the document belongs to an
  excluded node.\<close>

definition removed_ok :: "node \<Rightarrow> nat list \<Rightarrow> bool" where
  "removed_ok doc R \<longleftrightarrow> (\<forall>k \<in> set (nodes doc). addr k \<in> set R \<longrightarrow> exclude_from_selection k)"

definition container_content :: "world \<Rightarrow> node \<Rightarrow> string" where
  "container_content w c =
     (case Html (Render w) (strip_excluded c) of None \<Rightarrow> [] | Some html \<Rightarrow> html)"

text \<open>What a lyrics result shows when it is applied to a model: the error, or the
  lyrics centred in the viewport.\<close>

definition shown :: "(int \<Rightarrow> string \<Rightarrow> string) \<Rightarrow> model \<Rightarrow> string + string \<Rightarrow> string" where
  "shown center m r = (case r of Inl err \<Rightarrow> err | Inr lyrics \<Rightarrow> centerText center m lyrics)"

section \<open>Example inputs\<close>

text \<open>
  Concrete inputs on which the properties below are exercised: a provider that answers
  every request with status 200 (the song lookup with a given status), whose search
  lists the given hits and whose pages do not parse; a client with the token
  \<^verbatim>\<open>k\<close>; a provider that cannot be reached; and an operating system with a given \<^verbatim>\<open>XDG_CONFIG_HOME\<close>, a given
  answer of \<^verbatim>\<open>os.MkdirAll\<close> and a given answer of \<^verbatim>\<open>os.ReadFile\<close>.
\<close>

definition demo_world :: "hit list \<Rightarrow> int \<Rightarrow> world" where
  "demo_world hs song_status =
     \<lparr>url_error = (\<lambda>u. None),
      Do = (\<lambda>r. Inr \<lparr>StatusCode = (if HasPrefix (URL r) ''https://api.genius.com/songs/'' then song_status else 200),
                      Body = URL r\<rparr>),
      decode_search = (\<lambda>b. Inr \<lparr>Hits = hs\<rparr>),
      decode_song = (\<lambda>b. Inr \<lparr>Path = ''/Artist-title-lyrics''\<rparr>),
      NewDocumentFromReader = (\<lambda>s. Inl ''unexpected EOF''),
      Render = (\<lambda>n. None)\<rparr>"

definition demo_hit :: hit where
  "demo_hit = \<lparr>Type_hit = ''song'', Result = \<lparr>ID = 42, Title = ''T'', ArtistNames = ''A''\<rparr>\<rparr>"

definition demo_client :: GeniusAPIClient where
  "demo_client = NewGeniusAPIClient ''k''"

definition down_world :: world where
  "down_world =
     \<lparr>url_error = (\<lambda>u. None),
      Do = (\<lambda>r. Inl ''dial tcp: connection refused''),
      decode_search = (\<lambda>b. Inl ''EOF''),
      decode_song = (\<lambda>b. Inl ''EOF''),
      NewDocumentFromReader = (\<lambda>s. Inl ''EOF''),
      Render = (\<lambda>n. None)\<rparr>"

definition demo_os :: "string \<Rightarrow> os_error option \<Rightarrow> (os_error + string) \<Rightarrow> os_world" where
  "demo_os xdg mk rd =
     \<lparr>Getenv = (\<lambda>k. if k = ''XDG_CONFIG_HOME'' then xdg else []),
      UserHomeDir = Inl ''$HOME is not defined'',
      Join_path = (\<lambda>ps. Join ps (CHR ''/'')),
      MkdirAll = (\<lambda>p. mk),
      ReadFile = (\<lambda>p. rd),
      Unmarshal = (\<lambda>d c. if d = ''{}'' then (c, None) else (c, Some ''unexpected end of JSON input''))\<rparr>"

text \<open>
  A renderer for the examples (text as it is, \<^verbatim>\<open>br\<close> as \<^verbatim>\<open><br/>\<close>, other
  elements as their tag around their content), a parser for the examples (the text
  outside the tags, as one text node in a \<^verbatim>\<open>div\<close>), a page with four lyrics
  containers (one holds an excluded region and a second container, the excluded region
  holds a third one), and a world with the renderer and the parser that serves the page
  as the empty body.
\<close>

fun demo_render :: "node \<Rightarrow> string" where
  "demo_render (Node a ty d at ks) =
     (if ty = TextNode then d
      else if ty = ElementNode then
        (if d = ''br'' then ''<br/>''
         else ''<'' @ d @ ''>'' @ concat (map demo_render ks) @ ''</'' @ d @ ''>'')
      else [])"

fun strip_tags :: "bool \<Rightarrow> string \<Rightarrow> string" where
  "strip_tags inside [] = []"
| "strip_tags inside (c # cs) =
     (if c = CHR ''<'' then strip_tags True cs
      else if c = CHR ''>'' then strip_tags False cs
      else if inside then strip_tags inside cs
      else c # strip_tags inside cs)"

definition demo_parse :: "string \<Rightarrow> node" where
  "demo_parse s =
     Node 0 DocumentNode [] []
       [Node 1 ElementNode ''html'' []
          [Node 2 ElementNode ''head'' [] [],
           Node 3 ElementNode ''body'' []
             [Node 4 ElementNode ''div'' []
                [Node 5 TextNode (strip_tags False s) [] []]]]]"

definition demo_page :: node where
  "demo_page =
     Node 0 DocumentNode [] []
       [Node 1 ElementNode ''html'' []
          [Node 2 ElementNode ''body'' []
             [Node 3 ElementNode ''div'' [(''data-lyrics-container'', ''true'')]
                [Node 4 TextNode ''la'' [] [],
                 Node 5 ElementNode ''br'' [] [],
                 Node 6 ElementNode ''span'' [(''data-exclude-from-selection'', ''true'')]
                   [Node 7 TextNode ''Report'' [] [],
                    Node 16 ElementNode ''div'' [(''data-lyrics-container'', ''true'')]
                      [Node 17 TextNode ''in'' [] []]],
                 Node 8 ElementNode ''div'' [(''data-lyrics-container'', ''true'')]
                   [Node 9 TextNode ''li'' [] [],
                    Node 10 ElementNode ''a'' [(''data-exclude-from-selection'', ''true'')]
                      [Node 11 TextNode ''x'' [] []]]],
              Node 12 ElementNode ''p'' [] [Node 13 TextNode ''ad'' [] []],
              Node 14 ElementNode ''div'' [(''data-lyrics-container'', ''true'')]
                [Node 15 TextNode ''lo'' [] []]]]]"

definition page_world :: world where
  "page_world =
     \<lparr>url_error = (\<lambda>u. None),
      Do = (\<lambda>r. Inr \<lparr>StatusCode = 200, Body = []\<rparr>),
      decode_search = (\<lambda>b. Inr \<lparr>Hits = []\<rparr>),
      decode_song = (\<lambda>b. Inr \<lparr>Path = []\<rparr>),
      NewDocumentFromReader = (\<lambda>s. Inr (if s = [] then demo_page else demo_parse s)),
      Render = (\<lambda>n. Some (demo_render n))\<rparr>"

text \<open>
  A provider whose page for every song holds one container with the given lyrics, a
  line renderer that leaves the line as it is, and a run of the terminal program: the
  player reports track A, then track B, and the two fetches complete, the one for B
  first.
\<close>

definition lyr_page :: "string \<Rightarrow> node" where
  "lyr_page l =
     Node 0 DocumentNode [] []
       [Node 1 ElementNode ''html'' []
          [Node 2 ElementNode ''body'' []
             [Node 3 ElementNode ''div'' [(''data-lyrics-container'', ''true'')]
                [Node 4 TextNode l [] []]]]]"

definition lyr_world :: "string \<Rightarrow> world" where
  "lyr_world l =
     \<lparr>url_error = (\<lambda>u. None),
      Do = (\<lambda>r. Inr \<lparr>StatusCode = 200, Body = []\<rparr>),
      decode_search = (\<lambda>b. Inr \<lparr>Hits = [demo_hit]\<rparr>),
      decode_song = (\<lambda>b. Inr \<lparr>Path = ''/song''\<rparr>),
      NewDocumentFromReader = (\<lambda>s. Inr (lyr_page l)),
      Render = (\<lambda>n. Some (demo_render n))\<rparr>"

definition plain :: "int \<Rightarrow> string \<Rightarrow> string" where
  "plain w line = line"

definition demo_m0 :: model where
  "demo_m0 = initialModel False demo_client"

definition demo_m1 :: model where
  "demo_m1 = fst (Update plain demo_m0
      (checkCmusCmd (''status playing\<newline>tag artist A\<newline>tag title T1'', None)))"

definition demo_m2 :: model where
  "demo_m2 = fst (Update plain demo_m1
      (checkCmusCmd (''status playing\<newline>tag artist B\<newline>tag title T2'', None)))"

definition demo_m3 :: model where
  "demo_m3 = fst (Update plain demo_m2
      (fetchLyricsCmd (lyr_world ''lyrics of B'') demo_client ''B'' [] ''T2''))"

definition demo_m4 :: model where
  "demo_m4 = fst (Update plain demo_m3
      (fetchLyricsCmd (lyr_world ''lyrics of A'') demo_client ''A'' [] ''T1''))"

section \<open>Facts about the string functions\<close>

lemma HasPrefix_Cons: "HasPrefix (c # cs) (d # ds) \<longleftrightarrow> c = d \<and> HasPrefix cs ds"
  by (auto simp: HasPrefix_def)

lemma HasPrefix_Nil [simp]: "HasPrefix s []"
  by (simp add: HasPrefix_def)

lemma HasPrefix_Nil2: "HasPrefix [] p \<longleftrightarrow> p = []"
  by (auto simp: HasPrefix_def)

lemma HasPrefix_iff: "HasPrefix s p \<longleftrightarrow> (\<exists>r. s = p @ r)"
  by (auto simp: HasPrefix_def) (metis append_take_drop_id)

lemma HasPrefix_app:
  "HasPrefix s (a @ b) \<longleftrightarrow> HasPrefix s a \<and> HasPrefix (drop (length a) s) b"
  by (auto simp: HasPrefix_iff)

lemma Split_ne: "Split s c \<noteq> []"
  by (induction s) (auto split: list.splits)

lemma Contains_Nil: "Contains s []"
  by (induction s) auto

lemma HasPrefix_hd_Split:
  "sep \<notin> set p \<Longrightarrow> HasPrefix (hd (Split s sep)) p \<longleftrightarrow> HasPrefix s p"
proof (induction s arbitrary: p)
  case Nil
  then show ?case by simp
next
  case (Cons c cs)
  show ?case
  proof (cases p)
    case Nil
    then show ?thesis by simp
  next
    case (Cons d ds)
    with Cons.prems have "d \<noteq> sep" "sep \<notin> set ds" by auto
    then show ?thesis using Cons.IH[of ds] Cons Split_ne[of cs sep]
      by (auto simp: HasPrefix_Cons HasPrefix_Nil2 split: list.splits)
  qed
qed

text \<open>A text contains a string without separator exactly when one of its lines does.\<close>

lemma Contains_Split:
  "sep \<notin> set sub \<Longrightarrow> Contains s sub \<longleftrightarrow> (\<exists>l\<in>set (Split s sep). Contains l sub)"
proof (induction s)
  case Nil
  then show ?case by simp
next
  case (Cons c cs)
  show ?case
  proof (cases "c = sep")
    case True
    have "\<not> HasPrefix (c # cs) sub \<or> sub = []"
      using True Cons.prems by (cases sub) (auto simp: HasPrefix_Cons)
    then show ?thesis using Cons True by (auto simp: HasPrefix_Nil2 Contains_Nil)
  next
    case False
    obtain l ls where sp: "Split cs sep = l # ls"
      using Split_ne[of cs sep] by (cases "Split cs sep") auto
    have h: "HasPrefix (c # l) sub \<longleftrightarrow> HasPrefix (c # cs) sub"
      using HasPrefix_hd_Split[of sep sub "c # cs"] Cons.prems False sp by simp
    show ?thesis using Cons False sp h by auto
  qed
qed

lemma Contains_self: "Contains s s"
  by (cases s) (simp_all add: HasPrefix_def)

section \<open>Facts about the playback check\<close>

lemma rmatch_status:
  "rmatch status_re s \<noteq> [] \<longleftrightarrow> HasPrefix s ''status playing'' \<or> HasPrefix s ''status paused''"
proof -
  have a: "''status playing'' = ''status '' @ ''playing''" by simp
  have b: "''status paused'' = ''status '' @ ''paused''" by simp
  show ?thesis unfolding a b HasPrefix_app
    by (auto simp: status_re_def)
qed

lemma MatchString_status:
  "MatchString status_re s \<longleftrightarrow> Contains s ''status playing'' \<or> Contains s ''status paused''"
proof (induction s)
  case Nil
  show ?case using rmatch_status[of "[]"] by simp
next
  case (Cons c cs)
  show ?case using rmatch_status[of "c # cs"] Cons by auto
qed

section \<open>Facts about the parsing loop\<close>

text \<open>No line has two of the three prefixes, so the three results of the loop are
  independent folds of \<open>upd\<close>.\<close>

lemma artist_not_other:
  "HasPrefix l ''tag artist '' \<Longrightarrow> \<not> HasPrefix l ''tag album '' \<and> \<not> HasPrefix l ''tag title ''"
  by (auto simp: HasPrefix_iff)

lemma album_not_title: "HasPrefix l ''tag album '' \<Longrightarrow> \<not> HasPrefix l ''tag title ''"
  by (auto simp: HasPrefix_iff)

lemma parse_line_upd:
  "parse_line (a, al, t) l = (upd ''tag artist '' a l, upd ''tag album '' al l, upd ''tag title '' t l)"
  using artist_not_other[of l] album_not_title[of l] by (auto simp: parse_line_def upd_def)

lemma foldl_parse:
  "foldl parse_line (a, al, t) ls =
     (foldl (upd ''tag artist '') a ls, foldl (upd ''tag album '') al ls, foldl (upd ''tag title '') t ls)"
  by (induction ls arbitrary: a al t) (simp_all add: parse_line_upd)

lemma foldl_upd_snoc:
  "foldl (upd p) acc (ls @ [l]) = (if HasPrefix l p then TrimPrefix l p else foldl (upd p) acc ls)"
  by (simp add: upd_def)

lemma foldl_upd_tag_value: "foldl (upd p) [] ls = tag_value p ls"
  by (induction ls rule: rev_induct)
     (simp_all add: foldl_upd_snoc tag_value_def last_with_prefix_def del: foldl_append)

lemma parse_line_unrecognized: "\<not> recognized l \<Longrightarrow> parse_line st l = st"
  by (cases st) (simp add: parse_line_def recognized_def)

lemma foldl_parse_filter:
  "foldl parse_line st (filter recognized ls) = foldl parse_line st ls"
  by (induction ls arbitrary: st) (simp_all add: parse_line_unrecognized)

lemma HasPrefix_Nil3: "HasPrefix [] (d # ds) = False"
  by (simp add: HasPrefix_def)

lemmas hp = HasPrefix_Cons HasPrefix_Nil HasPrefix_Nil3

lemmas ev = NL_def parseCmusOutput_def parse_line_def hp TrimPrefix_def main_def fetchLyrics_def
  status_re_def last_with_prefix_def no_song_output_def

lemma parse_tag_value: "parseCmusOutput output =
     (tag_value ''tag artist '' (Split output NL),
      tag_value ''tag album '' (Split output NL),
      tag_value ''tag title '' (Split output NL))"
  by (simp add: parseCmusOutput_def foldl_parse foldl_upd_tag_value)

lemma last_with_prefix_value:
  "last_with_prefix p ls = Some (p @ v) \<Longrightarrow> tag_value p ls = v"
  by (simp add: tag_value_def TrimPrefix_def HasPrefix_iff)

lemma status_line_active:
  assumes "''status playing'' \<in> set (Split out NL) \<or> ''status paused'' \<in> set (Split out NL)"
  shows "MatchString status_re out"
proof -
  have "NL \<notin> set ''status playing''" "NL \<notin> set ''status paused''" by (simp_all add: NL_def)
  then show ?thesis
    using assms Contains_Split[of NL "''status playing''" out] Contains_Split[of NL "''status paused''" out]
      Contains_self MatchString_status by blast
qed

lemma no_status_inactive:
  assumes "filter (\<lambda>l. Contains l ''status playing'' \<or> Contains l ''status paused'') (Split out NL) = []"
  shows "\<not> MatchString status_re out"
proof -
  have "NL \<notin> set ''status playing''" "NL \<notin> set ''status paused''" by (simp_all add: NL_def)
  then show ?thesis
    using assms Contains_Split[of NL "''status playing''" out] Contains_Split[of NL "''status paused''" out]
      MatchString_status by (auto simp: filter_empty_conv)
qed

section \<open>Facts about the provider client\<close>

lemma search_stage_calls: "stage_calls (fst (search w c q)) = [CallSearch q]"
  by (simp add: search_def stage_calls_def Let_def split: sum.splits)

lemma getSong_stage_calls: "stage_calls (fst (getSong w c i)) = [CallGetSong i]"
  by (simp add: getSong_def stage_calls_def Let_def split: sum.splits)

lemma getLyrics_stage_calls: "stage_calls (fst (getLyrics w c p)) = [CallGetLyrics p]"
  by (simp add: getLyrics_def stage_calls_def Let_def split: sum.splits)

lemma stage_calls_append: "stage_calls (a @ b) = stage_calls a @ stage_calls b"
  by (simp add: stage_calls_def)

lemma GetLyrics_search_error:
  "snd (search w c (artist @ '' '' @ title)) = Inl err \<Longrightarrow>
   GetLyrics w c artist title =
     (fst (search w c (artist @ '' '' @ title)), Inl (''search genius api: '' @ err))"
  by (cases "search w c (artist @ '' '' @ title)") (simp add: GetLyrics_def Wrap_def)

lemma GetLyrics_no_hits:
  "snd (search w c (artist @ '' '' @ title)) = Inr resp \<Longrightarrow> Hits resp = [] \<Longrightarrow>
   GetLyrics w c artist title = (fst (search w c (artist @ '' '' @ title)), Inl ''no results'')"
  by (cases "search w c (artist @ '' '' @ title)") (simp add: GetLyrics_def)

lemma GetLyrics_getSong_error:
  "snd (search w c (artist @ '' '' @ title)) = Inr resp \<Longrightarrow> Hits resp = h # hs \<Longrightarrow>
   snd (getSong w c (ID (Result h))) = Inl err \<Longrightarrow>
   GetLyrics w c artist title =
     (fst (search w c (artist @ '' '' @ title)) @ fst (getSong w c (ID (Result h))),
      Inl (''get song from genius api: '' @ err))"
  by (cases "search w c (artist @ '' '' @ title)"; cases "getSong w c (ID (Result h))")
     (simp add: GetLyrics_def Wrap_def)

lemma GetLyrics_getLyrics:
  "snd (search w c (artist @ '' '' @ title)) = Inr resp \<Longrightarrow> Hits resp = h # hs \<Longrightarrow>
   snd (getSong w c (ID (Result h))) = Inr song \<Longrightarrow>
   GetLyrics w c artist title =
     (fst (search w c (artist @ '' '' @ title)) @ fst (getSong w c (ID (Result h)))
        @ fst (getLyrics w c (Path song)),
      case snd (getLyrics w c (Path song)) of
        Inl err \<Rightarrow> Inl (''scrape lyrics from genius webpage: '' @ err)
      | Inr lyrics \<Rightarrow> Inr lyrics)"
  by (cases "search w c (artist @ '' '' @ title)"; cases "getSong w c (ID (Result h))";
      cases "getLyrics w c (Path song)")
     (simp add: GetLyrics_def Wrap_def split: sum.splits)

lemma search_Inr_trace:
  "snd (search w c q) = Inr resp \<Longrightarrow>
   fst (search w c q) =
     [CallSearch q,
      Send \<lparr>Method = ''GET'', URL = ''https://api.genius.com/search?q='' @ QueryEscape q,
            Header = [(''Authorization'', ''Bearer '' @ accessToken c)]\<rparr>]"
  by (auto simp: search_def Let_def NewRequestWithContext_def Header_Set_def Encode_q_def
      split: sum.splits option.splits if_splits)

lemmas demo_ev = search_def getSong_def getLyrics_def demo_world_def demo_client_def demo_hit_def
  NewGeniusAPIClient_def NewRequestWithContext_def Header_Set_def Let_def hp Wrap_def
  Sprintf_d_def decimal_nat.simps

lemma demo_search:
  "snd (search (demo_world hs st) demo_client ''A T'') = Inr \<lparr>Hits = hs\<rparr>"
  by (simp add: demo_ev)

lemma demo_getSong_404:
  "snd (getSong (demo_world hs 404) demo_client 42) = Inl ''unexpected status code: 404''"
  by (simp add: demo_ev)

lemma demo_getSong_200:
  "snd (getSong (demo_world hs 200) demo_client 42) = Inr \<lparr>Path = ''/Artist-title-lyrics''\<rparr>"
  by (simp add: demo_ev)

lemma down_search:
  "snd (search down_world demo_client ''A T'') = Inl ''send request: dial tcp: connection refused''"
  by (simp add: search_def down_world_def NewRequestWithContext_def Let_def Wrap_def)

lemma demo_getLyrics:
  "snd (getLyrics (demo_world hs 200) demo_client ''/Artist-title-lyrics'') = Inl ''parse HTML: unexpected EOF''"
  by (simp add: demo_ev)

lemmas os_ev = demo_os_def getConfigPath_def config_home_def Let_def Wrap_def

lemma demo_path: "getConfigPath (demo_os ''/cfg'' None rd) = Inr ''/cfg/lyrics/config.json''"
  by (simp add: os_ev)

lemma demo_path_err: "getConfigPath (demo_os ''/cfg'' (Some (OsError False ''mkdir /cfg/lyrics: permission denied'')) rd)
   = Inl ''create config directory: mkdir /cfg/lyrics: permission denied''"
  by (simp add: os_ev)

section \<open>Facts about the document and the scrape\<close>

lemma excl_simp [simp]:
  "exclude_from_selection (Node a ty d at ks) \<longleftrightarrow> ty = ElementNode \<and> (''data-exclude-from-selection'', ''true'') \<in> set at"
  by (simp add: exclude_from_selection_def attr_equals_def)

lemma excl_cong: "Type k = Type k' \<Longrightarrow> Attr k = Attr k' \<Longrightarrow> exclude_from_selection k = exclude_from_selection k'"
  by (simp add: exclude_from_selection_def attr_equals_def)

lemma view_sel [simp]: "addr (view R n) = addr n" "Type (view R n) = Type n" "Attr (view R n) = Attr n" "Data (view R n) = Data n"
  by (cases n; simp)+

lemma excl_view [simp]: "exclude_from_selection (view R n) = exclude_from_selection n"
  by (rule excl_cong) simp_all

lemma below_Node: "below (Node a ty d at ks) = concat (map nodes ks)"
  by (simp add: below_def)

lemma nodes_below: "nodes n = n # below n"
  by (cases n) (simp add: below_def)

lemma self_in_nodes [simp]: "n \<in> set (nodes n)"
  by (cases n) simp

lemma nodes_trans: "k \<in> set (nodes n) \<Longrightarrow> x \<in> set (nodes k) \<Longrightarrow> x \<in> set (nodes n)"
  by (induction n arbitrary: k x) (auto; fastforce)

lemma child_below: "k \<in> set (children n) \<Longrightarrow> k \<in> set (below n)"
  unfolding below_def by (auto intro!: bexI[where x=k])

lemma below_in_nodes: "x \<in> set (below k) \<Longrightarrow> x \<in> set (nodes k)"
  by (simp add: nodes_below)

lemma below_child: "k \<in> set (children n) \<Longrightarrow> x \<in> set (below k) \<Longrightarrow> x \<in> set (below n)"
  unfolding below_def[of n] by (auto intro!: bexI[where x=k] below_in_nodes)

lemma view_view: "view A (view B n) = view (B @ A) n"
proof (induction n)
  case (Node a ty d at ks)
  then have "\<And>k. k \<in> set ks \<Longrightarrow> view A (view B k) = view (B @ A) k" by simp
  then have "concat (map (\<lambda>k. if addr k \<in> set A then [] else [view A k])
        (concat (map (\<lambda>k. if addr k \<in> set B then [] else [view B k]) ks)))
     = concat (map (\<lambda>k. if addr k \<in> set (B @ A) then [] else [view (B @ A) k]) ks)"
    by (induction ks) auto
  then show ?case by simp
qed

lemma view_strip:
  "(\<And>k. k \<in> set (below n) \<Longrightarrow> addr k \<in> set A \<longleftrightarrow> exclude_from_selection k) \<Longrightarrow> view A n = strip_excluded n"
proof (induction n)
  case (Node a ty d at ks)
  have "\<And>k. k \<in> set ks \<Longrightarrow> (addr k \<in> set A \<longleftrightarrow> exclude_from_selection k) \<and> view A k = strip_excluded k"
  proof -
    fix k assume k: "k \<in> set ks"
    then have "k \<in> set (below (Node a ty d at ks))"
      by (simp add: child_below)
    then have 1: "addr k \<in> set A \<longleftrightarrow> exclude_from_selection k" using Node.prems by blast
    have "\<And>x. x \<in> set (below k) \<Longrightarrow> x \<in> set (below (Node a ty d at ks))"
      using k below_child[of k "Node a ty d at ks"] by simp
    then have "view A k = strip_excluded k" using Node.IH[OF k] Node.prems by blast
    with 1 show "(addr k \<in> set A \<longleftrightarrow> exclude_from_selection k) \<and> view A k = strip_excluded k" by simp
  qed
  then have "concat (map (\<lambda>k. if addr k \<in> set A then [] else [view A k]) ks)
      = concat (map (\<lambda>k. if exclude_from_selection k then [] else [strip_excluded k]) ks)"
    by (induction ks) auto
  then show ?case by simp
qed

lemma strip_view:
  "(\<And>k. k \<in> set (below n) \<Longrightarrow> addr k \<in> set R \<Longrightarrow> exclude_from_selection k) \<Longrightarrow>
   strip_excluded (view R n) = strip_excluded n"
proof (induction n)
  case (Node a ty d at ks)
  have "\<And>k. k \<in> set ks \<Longrightarrow> (addr k \<in> set R \<longrightarrow> exclude_from_selection k) \<and> strip_excluded (view R k) = strip_excluded k"
  proof -
    fix k assume k: "k \<in> set ks"
    then have "k \<in> set (below (Node a ty d at ks))"
      by (simp add: child_below)
    then have 1: "addr k \<in> set R \<longrightarrow> exclude_from_selection k" using Node.prems by blast
    have "\<And>x. x \<in> set (below k) \<Longrightarrow> x \<in> set (below (Node a ty d at ks))"
      using k below_child[of k "Node a ty d at ks"] by simp
    then have "strip_excluded (view R k) = strip_excluded k" using Node.IH[OF k] Node.prems by blast
    with 1 show "(addr k \<in> set R \<longrightarrow> exclude_from_selection k) \<and> strip_excluded (view R k) = strip_excluded k" by simp
  qed
  then have "concat (map (\<lambda>k. if exclude_from_selection k then [] else [strip_excluded k])
         (concat (map (\<lambda>k. if addr k \<in> set R then [] else [view R k]) ks)))
      = concat (map (\<lambda>k. if exclude_from_selection k then [] else [strip_excluded k]) ks)"
    by (induction ks) auto
  then show ?case by simp
qed

lemma MatchAll_filter: "MatchAll m n = filter m (nodes n)"
proof (induction n)
  case (Node a ty d at ks)
  then have "concat (map (MatchAll m) ks) = concat (map (\<lambda>k. filter m (nodes k)) ks)"
    by (induction ks) auto
  then show ?case by (simp add: filter_concat comp_def)
qed

lemma Find_filter:
  assumes "\<And>k. m k \<Longrightarrow> Type k = ElementNode" "leaf_children n"
  shows "Find m n = filter m (below n)"
proof -
  have "\<And>k. k \<in> set (children n) \<Longrightarrow>
      (if Type k = ElementNode then MatchAll m k else []) = filter m (nodes k)"
  proof -
    fix k assume "k \<in> set (children n)"
    then have "Type k = ElementNode \<or> children k = []" using assms(2) by (simp add: leaf_children_def)
    then show "(if Type k = ElementNode then MatchAll m k else []) = filter m (nodes k)"
      using assms(1)[of k] by (cases k) (auto simp: MatchAll_filter)
  qed
  then have "concat (map (\<lambda>k. if Type k = ElementNode then MatchAll m k else []) (children n))
     = concat (map (\<lambda>k. filter m (nodes k)) (children n))"
    by (induction "children n" arbitrary: n) (auto intro: arg_cong[where f=concat] map_cong)
  moreover have "\<And>ks. concat (map (MatchAll m) (filter (\<lambda>c. Type c = ElementNode) ks))
     = concat (map (\<lambda>k. if Type k = ElementNode then MatchAll m k else []) ks)"
    subgoal for ks by (induction ks) auto
    done
  ultimately show ?thesis by (simp add: Find_def below_def filter_concat comp_def)
qed

lemma nodes_view: "x \<in> set (nodes (view R n)) \<Longrightarrow> \<exists>k \<in> set (nodes n). x = view R k"
proof (induction n arbitrary: x)
  case (Node a ty d at ks)
  show ?case
  proof (cases "x = view R (Node a ty d at ks)")
    case True
    then show ?thesis by (intro bexI[where x="Node a ty d at ks"]) simp_all
  next
    case False
    then obtain k where k: "k \<in> set ks" "x \<in> set (nodes (view R k))"
      using Node.prems by (auto split: if_splits)
    then obtain k' where "k' \<in> set (nodes k)" "x = view R k'" using Node.IH by blast
    then show ?thesis using k(1) by auto
  qed
qed

lemma below_view: "x \<in> set (below (view R n)) \<Longrightarrow> \<exists>k \<in> set (below n). x = view R k"
proof -
  assume "x \<in> set (below (view R n))"
  then obtain c where c: "c \<in> set (children (view R n))" "x \<in> set (nodes c)"
    by (auto simp: below_def)
  then obtain k where k: "k \<in> set (children n)" "c = view R k"
    by (cases n) (auto split: if_splits)
  then obtain k' where "k' \<in> set (nodes k)" "x = view R k'" using c nodes_view by blast
  then show ?thesis using k(1) by (auto simp: below_def)
qed

lemma children_view_leaf: "children k = [] \<Longrightarrow> children (view R k) = []"
  by (cases k) simp

lemma leaf_children_view: "leaf_children n \<Longrightarrow> leaf_children (view R n)"
  unfolding leaf_children_def
  by (cases n) (auto split: if_splits simp: children_view_leaf)

lemma wf_inj: "wf_document doc \<Longrightarrow> inj_on addr (set (nodes doc))"
  by (simp add: wf_document_def distinct_map)

lemma below_doc_nodes: "s \<in> set (below doc) \<Longrightarrow> x \<in> set (below s) \<Longrightarrow> x \<in> set (below doc)"
proof -
  assume s: "s \<in> set (below doc)" and x: "x \<in> set (below s)"
  from s obtain c where c: "c \<in> set (children doc)" "s \<in> set (nodes c)" by (auto simp: below_def)
  from x have "x \<in> set (nodes s)" by (rule below_in_nodes)
  then have "x \<in> set (nodes c)" using c(2) nodes_trans by blast
  then show ?thesis using c(1) by (auto simp: below_def)
qed

lemma wf_leaf_children_doc: "wf_document doc \<Longrightarrow> leaf_children doc"
  by (auto simp: wf_document_def leaf_children_def list_all_iff dest: child_below)

lemma wf_leaf_children: "wf_document doc \<Longrightarrow> s \<in> set (below doc) \<Longrightarrow> leaf_children s"
  unfolding leaf_children_def
proof
  fix k assume wf: "wf_document doc" and s: "s \<in> set (below doc)" and k: "k \<in> set (children s)"
  then have "k \<in> set (below doc)" using below_doc_nodes child_below by blast
  then show "Type k = ElementNode \<or> children k = []" using wf by (auto simp: wf_document_def list_all_iff)
qed

lemma excl_element: "exclude_from_selection k \<Longrightarrow> Type k = ElementNode"
  by (simp add: exclude_from_selection_def attr_equals_def)

lemma lyrics_element: "lyrics_container k \<Longrightarrow> Type k = ElementNode"
  by (simp add: lyrics_container_def attr_equals_def)

lemma each_container_step:
  assumes wf: "wf_document doc" and s: "s \<in> set (below doc)" and inv: "removed_ok doc R"
  shows "\<exists>R'. each_container w (R, buf) s = (R', buf @ container_content w s) \<and> removed_ok doc R'"
proof -
  let ?v = "view R s"
  let ?F = "Find exclude_from_selection ?v"
  let ?R' = "R @ map addr ?F"
  have inj: "inj_on addr (set (nodes doc))" using wf by (rule wf_inj)
  have sub: "\<And>x. x \<in> set (below s) \<Longrightarrow> x \<in> set (nodes doc)"
    using s below_doc_nodes below_in_nodes by blast
  have F: "?F = filter exclude_from_selection (below ?v)"
    using Find_filter[of exclude_from_selection ?v] excl_element
      leaf_children_view[OF wf_leaf_children[OF wf s]] by blast
  have cond: "\<And>k. k \<in> set (below ?v) \<Longrightarrow> addr k \<in> set (map addr ?F) \<longleftrightarrow> exclude_from_selection k"
  proof
    fix k assume k: "k \<in> set (below ?v)" and a: "addr k \<in> set (map addr ?F)"
    from a obtain k' where k': "k' \<in> set (below ?v)" "exclude_from_selection k'" "addr k' = addr k"
      unfolding F by auto
    obtain k0 where k0: "k0 \<in> set (below s)" "k = view R k0" using k below_view by blast
    obtain k0' where k0': "k0' \<in> set (below s)" "k' = view R k0'" using k'(1) below_view by blast
    have "addr k0 = addr k0'" using k0 k0' k'(3) by simp
    then have "k0 = k0'" using inj sub[OF k0(1)] sub[OF k0'(1)] by (auto dest: inj_onD)
    then show "exclude_from_selection k" using k0 k0' k'(2) by simp
  next
    fix k assume "k \<in> set (below ?v)" "exclude_from_selection k"
    then show "addr k \<in> set (map addr ?F)" unfolding F by auto
  qed
  have "view ?R' s = view (map addr ?F) ?v" by (simp add: view_view)
  also have "\<dots> = strip_excluded ?v" using cond by (rule view_strip)
  also have "\<dots> = strip_excluded s"
  proof (rule strip_view)
    fix k assume "k \<in> set (below s)" "addr k \<in> set R"
    then show "exclude_from_selection k" using inv sub by (auto simp: removed_ok_def)
  qed
  finally have v: "view ?R' s = strip_excluded s" .
  have inv': "removed_ok doc ?R'"
    unfolding removed_ok_def
  proof (intro ballI impI)
    fix k assume k: "k \<in> set (nodes doc)" and a: "addr k \<in> set ?R'"
    show "exclude_from_selection k"
    proof (cases "addr k \<in> set R")
      case True
      then show ?thesis using inv k by (auto simp: removed_ok_def)
    next
      case False
      then have "addr k \<in> set (map addr ?F)" using a by auto
      then obtain k' where k': "k' \<in> set (below ?v)" "exclude_from_selection k'" "addr k' = addr k"
        unfolding F by auto
      obtain k0' where k0': "k0' \<in> set (below s)" "k' = view R k0'" using k'(1) below_view by blast
      have "addr k0' = addr k" using k0' k'(3) by simp
      then have "k0' = k" using inj sub[OF k0'(1)] k by (auto dest: inj_onD)
      then show ?thesis using k0' k'(2) by simp
    qed
  qed
  have "each_container w (R, buf) s = (?R', buf @ container_content w s)"
    by (simp add: each_container_def Let_def v container_content_def split: option.splits)
  then show ?thesis using inv' by blast
qed

lemma foldl_each_container:
  assumes wf: "wf_document doc"
  shows "set cs \<subseteq> set (below doc) \<Longrightarrow> removed_ok doc R \<Longrightarrow>
         snd (foldl (each_container w) (R, buf) cs) = buf @ concat (map (container_content w) cs)"
proof (induction cs arbitrary: R buf)
  case Nil
  then show ?case by simp
next
  case (Cons c cs)
  then have c: "c \<in> set (below doc)" by simp
  obtain R' where R': "each_container w (R, buf) c = (R', buf @ container_content w c)"
      "removed_ok doc R'"
    using each_container_step[OF wf c Cons.prems(2)] by blast
  have "set cs \<subseteq> set (below doc)" using Cons.prems(1) by simp
  then show ?case using Cons.IH[OF _ R'(2)] R'(1) by simp
qed

lemma Find_below: "x \<in> set (Find m n) \<Longrightarrow> m x \<and> x \<in> set (below n)"
  by (auto simp: Find_def below_def MatchAll_filter)

lemma no_excluded_below_strip: "x \<in> set (below (strip_excluded n)) \<Longrightarrow> \<not> exclude_from_selection x"
proof (induction n arbitrary: x)
  case (Node a ty d at ks)
  from Node.prems obtain k where k: "k \<in> set ks" "\<not> exclude_from_selection k"
      "x \<in> set (nodes (strip_excluded k))"
    by (auto simp: below_Node split: if_splits)
  have e: "exclude_from_selection (strip_excluded k) = exclude_from_selection k"
    by (cases k) simp
  from k(3) have "x = strip_excluded k \<or> x \<in> set (below (strip_excluded k))"
    by (simp add: nodes_below)
  then show ?case using k(1,2) e Node.IH[of k x] by auto
qed

lemma Find_strip_excluded: "Find exclude_from_selection (strip_excluded c) = []"
proof -
  have "\<And>x. x \<notin> set (Find exclude_from_selection (strip_excluded c))"
    using Find_below[of _ exclude_from_selection "strip_excluded c"] no_excluded_below_strip[of _ c]
    by blast
  then show ?thesis
    by (cases "Find exclude_from_selection (strip_excluded c)") auto
qed

lemma scrape_characterised:
  assumes "wf_document doc"
  shows "scrape w doc = concat (map (container_content w) (Find lyrics_container doc))"
proof -
  have "set (Find lyrics_container doc) \<subseteq> set (below doc)" using Find_below by blast
  moreover have "removed_ok doc []" by (simp add: removed_ok_def)
  ultimately show ?thesis
    using foldl_each_container[OF assms, of "Find lyrics_container doc" "[]" w "[]"]
    by (simp add: scrape_def)
qed

lemma getLyrics_page:
  "url_error w (''https://genius.com'' @ path) = None \<Longrightarrow>
   Do w \<lparr>Method = ''GET'', URL = ''https://genius.com'' @ path, Header = []\<rparr> = Inr resp \<Longrightarrow>
   StatusCode resp = 200 \<Longrightarrow> NewDocumentFromReader w (Body resp) = Inr doc \<Longrightarrow>
   snd (getLyrics w c path) = scrape_page w doc"
  by (simp add: getLyrics_def NewRequestWithContext_def Let_def)

lemma scrape_page_no_lyrics:
  "scrape_page w doc = Inl ''no lyrics found on page'' \<longleftrightarrow> scrape w doc = []"
  by (auto simp: scrape_page_def normalize_def Let_def Wrap_def split: sum.splits)

lemma wf_demo_page: "wf_document demo_page"
  by (simp add: wf_document_def demo_page_def below_def)

lemma demo_contents:
  "concat (map (container_content page_world) (Find lyrics_container demo_page)) = ''la<br/><div>li</div>inlilo''"
  by (simp add: demo_page_def Find_def lyrics_container_def attr_equals_def container_content_def
      Html_def page_world_def)

section \<open>Facts about the normalization\<close>


lemma Contains_HasPrefix: "HasPrefix s p \<Longrightarrow> Contains s p"
  by (cases s) simp_all






lemma space_seqs_nonempty: "[] \<notin> set space_seqs"
  by (simp add: space_seqs_def)


lemma trailing_space_0_iff: "trailing_space s = 0 \<longleftrightarrow> (\<forall>p\<in>set space_seqs. \<not> HasSuffix s p)"
proof (cases "find (HasSuffix s) space_seqs")
  case None
  then have "trailing_space s = 0" by (simp add: trailing_space_def)
  moreover have "\<forall>p\<in>set space_seqs. \<not> HasSuffix s p" using None by (simp add: find_None_iff)
  ultimately show ?thesis by simp
next
  case (Some p)
  then have "p \<in> set space_seqs" "HasSuffix s p" by (auto simp: find_Some_iff)
  then show ?thesis using Some space_seqs_nonempty by (auto simp: trailing_space_def)
qed









section \<open>Facts about the update and the example run\<close>

lemma lyr_world_scrape: "scrape (lyr_world l) (lyr_page l) = l"
  by (simp add: scrape_def lyr_page_def Find_def lyrics_container_def attr_equals_def
      each_container_def Html_def lyr_world_def Let_def)

lemma TrimSpace_id: "leading_space s = 0 \<Longrightarrow> trailing_space s = 0 \<Longrightarrow> TrimSpace s = s"
  by (simp add: TrimSpace_def TrimLeft.simps[of s] TrimRight.simps[of s])

lemma lyr_world_GetLyrics:
  "l \<noteq> [] \<Longrightarrow> snd (GetLyrics (lyr_world l) client artist title) = Inr (TrimSpace l)"
proof -
  assume l: "l \<noteq> []"
  have w: "url_error (lyr_world l) = (\<lambda>u. None)" "Do (lyr_world l) = (\<lambda>r. Inr \<lparr>StatusCode = 200, Body = []\<rparr>)"
    "decode_search (lyr_world l) = (\<lambda>b. Inr \<lparr>Hits = [demo_hit]\<rparr>)"
    "decode_song (lyr_world l) = (\<lambda>b. Inr \<lparr>Path = ''/song''\<rparr>)"
    "NewDocumentFromReader (lyr_world l) = (\<lambda>s. Inr (lyr_page l))"
    by (simp_all add: lyr_world_def)
  have t: "Text (lyr_page l) = l" by (simp add: lyr_page_def)
  have sp: "scrape_page (lyr_world l) (lyr_page l) = Inr (TrimSpace l)"
    using l by (simp add: scrape_page_def lyr_world_scrape normalize_def w t)
  have s: "snd (search (lyr_world l) client (artist @ '' '' @ title)) = Inr \<lparr>Hits = [demo_hit]\<rparr>"
    by (simp add: search_def w NewRequestWithContext_def Let_def)
  have g: "snd (getSong (lyr_world l) client (ID (Result demo_hit))) = Inr \<lparr>Path = ''/song''\<rparr>"
    by (simp add: getSong_def w NewRequestWithContext_def Let_def)
  have y: "snd (getLyrics (lyr_world l) client ''/song'') = Inr (TrimSpace l)"
    by (simp add: getLyrics_def w NewRequestWithContext_def Let_def sp)
  show ?thesis
    using GetLyrics_getLyrics[OF s _ g, of "[]"] y by simp
qed

lemma lyrics_of_A: "TrimSpace ''lyrics of A'' = ''lyrics of A''"
  by (rule TrimSpace_id) (simp_all add: leading_space_def trailing_space_def space_seqs_def hp HasSuffix_def)

lemma lyrics_of_B: "TrimSpace ''lyrics of B'' = ''lyrics of B''"
  by (rule TrimSpace_id) (simp_all add: leading_space_def trailing_space_def space_seqs_def hp HasSuffix_def)

lemma result_A:
  "fetchLyricsCmd (lyr_world ''lyrics of A'') demo_client ''A'' [] ''T1'' = SongLyricsMsg ''A'' [] ''T1'' ''lyrics of A'' None"
  by (simp add: fetchLyricsCmd_def lyr_world_GetLyrics lyrics_of_A)

lemma result_B:
  "fetchLyricsCmd (lyr_world ''lyrics of B'') demo_client ''B'' [] ''T2'' = SongLyricsMsg ''B'' [] ''T2'' ''lyrics of B'' None"
  by (simp add: fetchLyricsCmd_def lyr_world_GetLyrics lyrics_of_B)

lemma poll_A: "checkCmusCmd (''status playing\<newline>tag artist A\<newline>tag title T1'', None) = SongInfoMsg ''A'' [] ''T1'' None"
  by (simp add: checkCmusCmd_def ev)

lemma poll_B: "checkCmusCmd (''status playing\<newline>tag artist B\<newline>tag title T2'', None) = SongInfoMsg ''B'' [] ''T2'' None"
  by (simp add: checkCmusCmd_def ev)

lemma centerText_plain: "centerText plain m ''lyrics of A'' = ''lyrics of A''" "centerText plain m ''lyrics of B'' = ''lyrics of B''"
  "centerText plain m ''Loading...'' = ''Loading...''"
  by (simp_all add: centerText_def plain_def NL_def)

lemma demo_m1_eq:
  "Update plain demo_m0 (SongInfoMsg ''A'' [] ''T1'' None) =
     (demo_m1, [Tick, FetchLyricsCmd demo_client ''A'' [] ''T1''])"
  by (simp add: demo_m1_def poll_A demo_m0_def initialModel_def updateStatusBar_def Let_def)

lemma demo_m1_fields: "m_artist demo_m1 = ''A''" "m_title demo_m1 = ''T1''" "m_album demo_m1 = []"
  "m_geniusAPIClient demo_m1 = demo_client"
  by (simp_all add: demo_m1_def poll_A demo_m0_def initialModel_def updateStatusBar_def Let_def)

lemma demo_m2_eq:
  "Update plain demo_m1 (SongInfoMsg ''B'' [] ''T2'' None) =
     (demo_m2, [Tick, FetchLyricsCmd demo_client ''B'' [] ''T2''])"
  by (simp add: demo_m2_def poll_B demo_m1_fields updateStatusBar_def Let_def)

lemma demo_m2_fields: "m_artist demo_m2 = ''B''" "m_title demo_m2 = ''T2''"
  by (simp_all add: demo_m2_def poll_B demo_m1_fields updateStatusBar_def Let_def)

lemma demo_m3_eq:
  "Update plain demo_m2 (SongLyricsMsg ''B'' [] ''T2'' ''lyrics of B'' None) = (demo_m3, [])"
  by (simp add: demo_m3_def result_B)

lemma demo_m4_eq:
  "Update plain demo_m3 (SongLyricsMsg ''A'' [] ''T1'' ''lyrics of A'' None) = (demo_m4, [])"
  by (simp add: demo_m4_def result_A)

lemma demo_m4_fields: "m_artist demo_m4 = ''B''" "m_title demo_m4 = ''T2''"
  "m_lyrics demo_m4 = ''lyrics of A''" "Content (viewport demo_m4) = ''lyrics of A''"
  by (simp_all add: demo_m4_def result_A demo_m3_def result_B demo_m2_fields updateLyrics_def
      SetContent_def centerText_plain)

lemma centerText_width: "Width (viewport m') = Width (viewport m) \<Longrightarrow> centerText center m' s = centerText center m s"
  by (simp add: centerText_def)

lemma Update_fetch_result:
  "Update center m (fetchLyricsCmd w client artist album title) =
     (case snd (GetLyrics w client artist title) of
        Inl err \<Rightarrow> m\<lparr>viewport := SetContent err (viewport m)\<rparr>
      | Inr lyrics \<Rightarrow> updateLyrics center lyrics (m\<lparr>m_lyrics := lyrics\<rparr>), [])"
  by (simp add: fetchLyricsCmd_def split: sum.splits)

lemma Update_fetch_content:
  "Content (viewport (fst (Update center m (fetchLyricsCmd w client artist album title))))
     = shown center m (snd (GetLyrics w client artist title))"
  by (simp add: Update_fetch_result shown_def updateLyrics_def SetContent_def centerText_def
      split: sum.splits)

lemma Update_fetch_track:
  "m_artist (fst (Update center m (fetchLyricsCmd w client artist album title))) = m_artist m
   \<and> m_title (fst (Update center m (fetchLyricsCmd w client artist album title))) = m_title m
   \<and> Width (viewport (fst (Update center m (fetchLyricsCmd w client artist album title)))) = Width (viewport m)"
  by (simp add: Update_fetch_result updateLyrics_def SetContent_def split: sum.splits)

lemma shown_width: "Width (viewport m') = Width (viewport m) \<Longrightarrow> shown center m' r = shown center m r"
  by (simp add: shown_def centerText_def split: sum.splits)

lemma demo_page_lyrics:
  "scrape_page page_world demo_page = Inr ''la\<newline>liinlilo''"
proof -
  have s: "scrape page_world demo_page = ''la<br/><div>li</div>inlilo''"
    using scrape_characterised[OF wf_demo_page, of page_world] demo_contents by simp
  have b: "br_to_newline ''la<br/><div>li</div>inlilo'' = ''la\<newline><div>li</div>inlilo''"
    by (simp add: br_to_newline_def hp NL_def)
  have p: "NewDocumentFromReader page_world (''<div>'' @ ''la\<newline><div>li</div>inlilo'' @ ''</div>'')
      = Inr (demo_parse ''<div>la\<newline><div>li</div>inlilo</div>'')"
    by (simp add: page_world_def)
  have x: "Text (demo_parse ''<div>la\<newline><div>li</div>inlilo</div>'') = ''la\<newline>liinlilo''"
    by (simp add: demo_parse_def)
  have tr: "TrimSpace ''la\<newline>liinlilo'' = ''la\<newline>liinlilo''"
    by (rule TrimSpace_id)
       (simp_all add: leading_space_def trailing_space_def space_seqs_def hp HasSuffix_def)
  show ?thesis
    by (simp add: scrape_page_def s normalize_def b p x tr del: append.simps)
qed

section \<open>Properties of main.go\<close>

text \<open>
  Claim C2, as amended. For every player-status text with a line \<^verbatim>\<open>status playing\<close> or
  \<^verbatim>\<open>status paused\<close>, whose last line with prefix \<^verbatim>\<open>tag artist \<close> is
  \<^verbatim>\<open>tag artist X\<close> and whose last line with prefix \<^verbatim>\<open>tag title \<close> is
  \<^verbatim>\<open>tag title Y\<close>, with \<open>X\<close> and \<open>Y\<close> not empty, parsing yields artist \<open>X\<close> and title
  \<open>Y\<close> and the program calls the fetch for them. For every text none of whose lines
  contains \<^verbatim>\<open>status playing\<close> or \<^verbatim>\<open>status paused\<close> (so for a text whose status line
  is \<^verbatim>\<open>status stopped\<close> and whose tag values do not contain them), the program prints that
  no song is playing and does nothing else, whatever tag lines are present.
\<close>

theorem main_round_trip:
  "((''status playing'' \<in> set (Split out NL) \<or> ''status paused'' \<in> set (Split out NL))
      \<and> last_with_prefix ''tag artist '' (Split out NL) = Some (''tag artist '' @ X)
      \<and> last_with_prefix ''tag title '' (Split out NL) = Some (''tag title '' @ Y)
      \<and> X \<noteq> [] \<and> Y \<noteq> []
    \<longrightarrow> fst (parseCmusOutput out) = X \<and> snd (snd (parseCmusOutput out)) = Y
        \<and> CallFetchLyrics X (fst (snd (parseCmusOutput out))) Y \<in> set (main (out, None)))
   \<and> ((\<forall>l \<in> set (Split out NL). \<not> Contains l ''status playing'' \<and> \<not> Contains l ''status paused'')
    \<longrightarrow> main (out, None) = no_song_output)"
proof (intro conjI impI)
  assume a: "(''status playing'' \<in> set (Split out NL) \<or> ''status paused'' \<in> set (Split out NL))
      \<and> last_with_prefix ''tag artist '' (Split out NL) = Some (''tag artist '' @ X)
      \<and> last_with_prefix ''tag title '' (Split out NL) = Some (''tag title '' @ Y)
      \<and> X \<noteq> [] \<and> Y \<noteq> []"
  then have m: "MatchString status_re out" using status_line_active by blast
  from a have p: "parseCmusOutput out = (X, tag_value ''tag album '' (Split out NL), Y)"
    by (simp add: parse_tag_value last_with_prefix_value)
  show "fst (parseCmusOutput out) = X" using p by simp
  show "snd (snd (parseCmusOutput out)) = Y" using p by simp
  show "CallFetchLyrics X (fst (snd (parseCmusOutput out))) Y \<in> set (main (out, None))"
    using a m p by (simp add: main_def fetchLyrics_def)
next
  assume "\<forall>l \<in> set (Split out NL). \<not> Contains l ''status playing'' \<and> \<not> Contains l ''status paused''"
  then have "\<not> MatchString status_re out" using no_status_inactive[of out] by (auto simp: filter_empty_conv)
  then show "main (out, None) = no_song_output" by (simp add: main_def no_song_output_def)
qed

theorem main_round_trip_witness:
  "fst (parseCmusOutput ''status paused\<newline>tag artist A\<newline>tag album L\<newline>tag title T'') = ''A''
   \<and> snd (snd (parseCmusOutput ''status paused\<newline>tag artist A\<newline>tag album L\<newline>tag title T'')) = ''T''
   \<and> CallFetchLyrics ''A'' ''L'' ''T'' \<in> set (main (''status paused\<newline>tag artist A\<newline>tag album L\<newline>tag title T'', None))
   \<and> main (''status stopped\<newline>tag artist A\<newline>tag title T'', None) = no_song_output"
proof -
  let ?t = "''status paused\<newline>tag artist A\<newline>tag album L\<newline>tag title T''"
  let ?u = "''status stopped\<newline>tag artist A\<newline>tag title T''"
  have s: "Split ?t NL = [''status paused'', ''tag artist A'', ''tag album L'', ''tag title T'']"
    by (simp add: NL_def)
  have su: "Split ?u NL = [''status stopped'', ''tag artist A'', ''tag title T'']"
    by (simp add: NL_def)
  have h1: "(''status playing'' \<in> set (Split ?t NL) \<or> ''status paused'' \<in> set (Split ?t NL))
      \<and> last_with_prefix ''tag artist '' (Split ?t NL) = Some (''tag artist '' @ ''A'')
      \<and> last_with_prefix ''tag title '' (Split ?t NL) = Some (''tag title '' @ ''T'')
      \<and> ''A'' \<noteq> [] \<and> ''T'' \<noteq> []"
    unfolding s by (simp add: last_with_prefix_def hp)
  have h2: "\<forall>l \<in> set (Split ?u NL). \<not> Contains l ''status playing'' \<and> \<not> Contains l ''status paused''"
    unfolding su by (simp add: hp)
  have al: "fst (snd (parseCmusOutput ?t)) = ''L''"
    unfolding parseCmusOutput_def s by (simp add: parse_line_def hp TrimPrefix_def)
  have r1: "fst (parseCmusOutput ?t) = ''A'' \<and> snd (snd (parseCmusOutput ?t)) = ''T''
        \<and> CallFetchLyrics ''A'' (fst (snd (parseCmusOutput ?t))) ''T'' \<in> set (main (?t, None))"
    using main_round_trip[of ?t "''A''" "''T''"] h1 by blast
  have r2: "main (?u, None) = no_song_output"
    using main_round_trip[of ?u] h2 by blast
  show ?thesis using r1 r2 unfolding al by blast
qed

text \<open>
  Claim C2 as stated fails at three inputs: a later \<^verbatim>\<open>tag artist \<close> line overrides the
  artist \<open>A\<close> of an earlier one; with an empty artist value the program does not fetch;
  and a text whose status line is \<^verbatim>\<open>status stopped\<close> is taken as active when a tag value
  contains \<^verbatim>\<open>status playing\<close>.
\<close>

theorem main_round_trip_counterexample:
  "''status playing'' \<in> set (Split ''status playing\<newline>tag artist A\<newline>tag title T\<newline>tag artist B'' NL)
   \<and> ''tag artist A'' \<in> set (Split ''status playing\<newline>tag artist A\<newline>tag title T\<newline>tag artist B'' NL)
   \<and> ''tag title T'' \<in> set (Split ''status playing\<newline>tag artist A\<newline>tag title T\<newline>tag artist B'' NL)
   \<and> fst (parseCmusOutput ''status playing\<newline>tag artist A\<newline>tag title T\<newline>tag artist B'') = ''B''
   \<and> ''status playing'' \<in> set (Split ''status playing\<newline>tag artist \<newline>tag title T'' NL)
   \<and> ''tag artist '' @ [] \<in> set (Split ''status playing\<newline>tag artist \<newline>tag title T'' NL)
   \<and> ''tag title T'' \<in> set (Split ''status playing\<newline>tag artist \<newline>tag title T'' NL)
   \<and> main (''status playing\<newline>tag artist \<newline>tag title T'', None) =
       [Exec ''cmus-remote'' [''-Q''],
        Print (''Could not find artist or title information for the current song'' @ [NL])]
   \<and> ''status stopped'' \<in> set (Split ''status stopped\<newline>tag artist A\<newline>tag title status playing'' NL)
   \<and> main (''status stopped\<newline>tag artist A\<newline>tag title status playing'', None) \<noteq> no_song_output
   \<and> CallFetchLyrics ''A'' [] ''status playing''
       \<in> set (main (''status stopped\<newline>tag artist A\<newline>tag title status playing'', None))"
  by (simp add: ev)

text \<open>
  Claim C3, as amended. For every player-status text, each of the three results of
  \<^verbatim>\<open>parseCmusOutput\<close> is the value of the last line with the tag's prefix (empty when
  there is none): a later duplicate overrides an earlier one. Lines without a recognized
  prefix are ignored: the result is that of the recognized lines alone.
\<close>

theorem parseCmusOutput_last_occurrence:
  "parseCmusOutput output =
     (tag_value ''tag artist '' (Split output NL),
      tag_value ''tag album '' (Split output NL),
      tag_value ''tag title '' (Split output NL))
   \<and> parseCmusOutput output = foldl parse_line ([], [], []) (filter recognized (Split output NL))"
  by (simp add: parseCmusOutput_def foldl_parse foldl_upd_tag_value foldl_parse_filter)

text \<open>
  Claim C3 as stated fails: with two \<^verbatim>\<open>tag artist \<close> lines, the result is the value of
  the second, not of the first.
\<close>

theorem parseCmusOutput_first_occurrence_counterexample:
  "Split ''tag artist first\<newline>tag artist second'' NL = [''tag artist first'', ''tag artist second'']
   \<and> TrimPrefix ''tag artist first'' ''tag artist '' = ''first''
   \<and> fst (parseCmusOutput ''tag artist first\<newline>tag artist second'') = ''second''"
  by (simp add: parseCmusOutput_def NL_def parse_line_def hp TrimPrefix_def)

text \<open>
  Claim C9. For every artist, album and track, \<^verbatim>\<open>fetchLyrics\<close> of main.go returns the
  placeholder text built from them and a nil error; whatever the player query returns,
  \<^verbatim>\<open>main\<close> makes no request to the lyrics provider and prints no fetch error.
\<close>

theorem fetchLyrics_placeholder:
  "fetchLyrics artist album track =
     (''Lyrics placeholder for '' @ artist @ '' - '' @ track @ '' from the album '' @ album, None)
   \<and> filter is_remote (main r) = []
   \<and> Print (''Error fetching lyrics: '' @ err @ [NL]) \<notin> set (main r)"
  by (auto simp: fetchLyrics_def main_def Let_def split: option.splits prod.splits)

text \<open>
  Claim C10. The playback check succeeds exactly when the output contains
  \<^verbatim>\<open>status playing\<close> or \<^verbatim>\<open>status paused\<close> as a substring, anywhere; the program
  prints that no song is playing exactly when the check fails; and an output without any
  status line whose title value contains \<^verbatim>\<open>status playing\<close> is treated as active: the
  program goes on to fetch.
\<close>

theorem playback_check_is_substring_search:
  "(MatchString status_re s \<longleftrightarrow> Contains s ''status playing'' \<or> Contains s ''status paused'')
   \<and> (main (s, None) = no_song_output \<longleftrightarrow> \<not> MatchString status_re s)
   \<and> filter (\<lambda>l. HasPrefix l ''status'') (Split ''tag artist A\<newline>tag title my status playing'' NL) = []
   \<and> CallFetchLyrics ''A'' [] ''my status playing''
       \<in> set (main (''tag artist A\<newline>tag title my status playing'', None))"
proof -
  have 2: "main (s, None) = no_song_output \<longleftrightarrow> \<not> MatchString status_re s"
    by (auto simp: main_def no_song_output_def fetchLyrics_def Let_def split: prod.splits)
  have 3: "filter (\<lambda>l. HasPrefix l ''status'') (Split ''tag artist A\<newline>tag title my status playing'' NL) = []
   \<and> CallFetchLyrics ''A'' [] ''my status playing''
       \<in> set (main (''tag artist A\<newline>tag title my status playing'', None))"
    by (simp add: ev)
  show ?thesis using MatchString_status[of s] 2 3 by blast
qed

section \<open>Properties of the provider client\<close>

text \<open>
  Claim C4. For every artist and title, the first stage \<^verbatim>\<open>GetLyrics\<close> enters is the
  search, with the single string artist, space, title; when the search answers, the
  request it sent carries that string, escaped, as the one query parameter. If the
  response has no hit, the fetch fails with \<^verbatim>\<open>no results\<close> and enters no further
  stage. Otherwise the next stage is the song lookup with the identifier of the first
  hit, and no other song lookup is made.
\<close>

theorem GetLyrics_search_first_hit:
  assumes "q = artist @ '' '' @ title"
  shows "take 1 (stage_calls (fst (GetLyrics w c artist title))) = [CallSearch q]
   \<and> (snd (search w c q) = Inr resp \<longrightarrow>
        fst (search w c q) =
          [CallSearch q,
           Send \<lparr>Method = ''GET'', URL = ''https://api.genius.com/search?q='' @ QueryEscape q,
                 Header = [(''Authorization'', ''Bearer '' @ accessToken c)]\<rparr>])
   \<and> (snd (search w c q) = Inr resp \<and> Hits resp = [] \<longrightarrow>
        snd (GetLyrics w c artist title) = Inl ''no results''
        \<and> stage_calls (fst (GetLyrics w c artist title)) = [CallSearch q])
   \<and> (snd (search w c q) = Inr resp \<and> Hits resp = h # hs \<longrightarrow>
        take 2 (stage_calls (fst (GetLyrics w c artist title))) = [CallSearch q, CallGetSong (ID (Result h))]
        \<and> filter (\<lambda>e. case e of CallGetSong i \<Rightarrow> True | _ \<Rightarrow> False) (fst (GetLyrics w c artist title))
            = [CallGetSong (ID (Result h))])"
proof (intro conjI impI)
  show "take 1 (stage_calls (fst (GetLyrics w c artist title))) = [CallSearch q]"
    using search_stage_calls[of w c q] assms
    by (auto simp: GetLyrics_def stage_calls_append split: prod.splits sum.splits list.splits)
next
  assume "snd (search w c q) = Inr resp"
  then show "fst (search w c q) =
          [CallSearch q,
           Send \<lparr>Method = ''GET'', URL = ''https://api.genius.com/search?q='' @ QueryEscape q,
                 Header = [(''Authorization'', ''Bearer '' @ accessToken c)]\<rparr>]"
    by (rule search_Inr_trace)
next
  assume a: "snd (search w c q) = Inr resp \<and> Hits resp = []"
  then have g: "GetLyrics w c artist title = (fst (search w c q), Inl ''no results'')"
    using GetLyrics_no_hits[of w c artist title resp] assms by simp
  show "snd (GetLyrics w c artist title) = Inl ''no results''" using g by simp
  show "stage_calls (fst (GetLyrics w c artist title)) = [CallSearch q]"
    using g search_stage_calls by simp
next
  assume a: "snd (search w c q) = Inr resp \<and> Hits resp = h # hs"
  let ?i = "ID (Result h)"
  have f: "fst (GetLyrics w c artist title) = fst (search w c q) @ fst (getSong w c ?i)
        \<or> (\<exists>p. fst (GetLyrics w c artist title) = fst (search w c q) @ fst (getSong w c ?i) @ fst (getLyrics w c p))"
  proof (cases "snd (getSong w c ?i)")
    case (Inl err)
    then show ?thesis using GetLyrics_getSong_error[of w c artist title resp h hs err] a assms by simp
  next
    case (Inr song)
    then show ?thesis using GetLyrics_getLyrics[of w c artist title resp h hs song] a assms by auto
  qed
  have sc: "stage_calls (fst (GetLyrics w c artist title)) = [CallSearch q, CallGetSong ?i]
        \<or> (\<exists>p. stage_calls (fst (GetLyrics w c artist title)) = [CallSearch q, CallGetSong ?i, CallGetLyrics p])"
    using f by (auto simp: stage_calls_append search_stage_calls getSong_stage_calls getLyrics_stage_calls)
  show "take 2 (stage_calls (fst (GetLyrics w c artist title))) = [CallSearch q, CallGetSong ?i]"
    using sc by auto
  have "filter (\<lambda>e. case e of CallGetSong i \<Rightarrow> True | _ \<Rightarrow> False) (fst (GetLyrics w c artist title))
      = filter (\<lambda>e. case e of CallGetSong i \<Rightarrow> True | _ \<Rightarrow> False) (stage_calls (fst (GetLyrics w c artist title)))"
    unfolding stage_calls_def filter_filter
    by (rule filter_cong) (auto split: effect.splits)
  then show "filter (\<lambda>e. case e of CallGetSong i \<Rightarrow> True | _ \<Rightarrow> False) (fst (GetLyrics w c artist title))
            = [CallGetSong ?i]"
    using sc by auto
qed

theorem GetLyrics_search_first_hit_witness:
  "take 1 (stage_calls (fst (GetLyrics (demo_world [] 200) demo_client ''A'' ''T''))) = [CallSearch ''A T'']
   \<and> snd (GetLyrics (demo_world [] 200) demo_client ''A'' ''T'') = Inl ''no results''
   \<and> stage_calls (fst (GetLyrics (demo_world [] 200) demo_client ''A'' ''T'')) = [CallSearch ''A T'']
   \<and> take 2 (stage_calls (fst (GetLyrics (demo_world [demo_hit] 200) demo_client ''A'' ''T'')))
        = [CallSearch ''A T'', CallGetSong 42]
   \<and> fst (search (demo_world [demo_hit] 200) demo_client ''A T'') =
        [CallSearch ''A T'',
         Send \<lparr>Method = ''GET'', URL = ''https://api.genius.com/search?q=A+T'',
               Header = [(''Authorization'', ''Bearer k'')]\<rparr>]"
proof -
  have q: "''A T'' = ''A'' @ '' '' @ ''T''" by simp
  have i: "ID (Result demo_hit) = 42" by (simp add: demo_hit_def)
  have h0: "Hits \<lparr>Hits = ([] :: hit list)\<rparr> = []" by simp
  have h1: "Hits \<lparr>Hits = [demo_hit]\<rparr> = demo_hit # []" by simp
  note a = GetLyrics_search_first_hit[OF q, of "demo_world [] 200" demo_client "\<lparr>Hits = []\<rparr>"]
  note b = GetLyrics_search_first_hit[OF q, of "demo_world [demo_hit] 200" demo_client "\<lparr>Hits = [demo_hit]\<rparr>" demo_hit "[]"]
  have "take 1 (stage_calls (fst (GetLyrics (demo_world [] 200) demo_client ''A'' ''T''))) = [CallSearch ''A T'']
   \<and> snd (GetLyrics (demo_world [] 200) demo_client ''A'' ''T'') = Inl ''no results''
   \<and> stage_calls (fst (GetLyrics (demo_world [] 200) demo_client ''A'' ''T'')) = [CallSearch ''A T'']
   \<and> take 2 (stage_calls (fst (GetLyrics (demo_world [demo_hit] 200) demo_client ''A'' ''T'')))
        = [CallSearch ''A T'', CallGetSong 42]"
    using a b demo_search[of "[]" 200] demo_search[of "[demo_hit]" 200] h0 h1 i by metis
  moreover have "fst (search (demo_world [demo_hit] 200) demo_client ''A T'') =
        [CallSearch ''A T'',
         Send \<lparr>Method = ''GET'', URL = ''https://api.genius.com/search?q='' @ QueryEscape ''A T'',
               Header = [(''Authorization'', ''Bearer '' @ accessToken demo_client)]\<rparr>]"
    using b demo_search[of "[demo_hit]" 200] by blast
  ultimately show ?thesis by (simp add: shouldEscape_def demo_client_def NewGeniusAPIClient_def)
qed

text \<open>
  Claim C7, as amended. When one of the three stage calls fails (\<^verbatim>\<open>search\<close>,
  \<^verbatim>\<open>getSong\<close>, \<^verbatim>\<open>getLyrics\<close>), \<^verbatim>\<open>GetLyrics\<close> returns at once with the
  stage's error behind the stage's name (\<^verbatim>\<open>search genius api\<close>,
  \<^verbatim>\<open>get song from genius api\<close>, \<^verbatim>\<open>scrape lyrics from genius webpage\<close>); when the
  search answers with no hit it returns at once with the bare error \<^verbatim>\<open>no results\<close>,
  which names no stage. In every case the effects are those of the stages up to the
  failing one, each entered once: no later stage runs and none is retried.
\<close>

theorem GetLyrics_stage_failure:
  assumes "q = artist @ '' '' @ title"
  shows "(snd (search w c q) = Inl err \<longrightarrow>
           GetLyrics w c artist title = (fst (search w c q), Inl (''search genius api: '' @ err)))
   \<and> (snd (search w c q) = Inr resp \<and> Hits resp = [] \<longrightarrow>
           GetLyrics w c artist title = (fst (search w c q), Inl ''no results''))
   \<and> (snd (search w c q) = Inr resp \<and> Hits resp = h # hs
        \<and> snd (getSong w c (ID (Result h))) = Inl err \<longrightarrow>
           GetLyrics w c artist title =
             (fst (search w c q) @ fst (getSong w c (ID (Result h))),
              Inl (''get song from genius api: '' @ err)))
   \<and> (snd (search w c q) = Inr resp \<and> Hits resp = h # hs
        \<and> snd (getSong w c (ID (Result h))) = Inr song
        \<and> snd (getLyrics w c (Path song)) = Inl err \<longrightarrow>
           GetLyrics w c artist title =
             (fst (search w c q) @ fst (getSong w c (ID (Result h))) @ fst (getLyrics w c (Path song)),
              Inl (''scrape lyrics from genius webpage: '' @ err)))
   \<and> stage_calls (fst (search w c q)) = [CallSearch q]
   \<and> stage_calls (fst (getSong w c i)) = [CallGetSong i]
   \<and> stage_calls (fst (getLyrics w c p)) = [CallGetLyrics p]"
  unfolding assms
  using GetLyrics_search_error[of w c artist title err]
    GetLyrics_no_hits[of w c artist title resp]
    GetLyrics_getSong_error[of w c artist title resp h hs err]
    GetLyrics_getLyrics[of w c artist title resp h hs song]
  by (simp add: search_stage_calls getSong_stage_calls getLyrics_stage_calls)

theorem GetLyrics_stage_failure_witness:
  "GetLyrics (demo_world [] 200) demo_client ''A'' ''T'' =
     (fst (search (demo_world [] 200) demo_client ''A T''), Inl ''no results'')
   \<and> GetLyrics (demo_world [demo_hit] 404) demo_client ''A'' ''T'' =
     (fst (search (demo_world [demo_hit] 404) demo_client ''A T'')
        @ fst (getSong (demo_world [demo_hit] 404) demo_client 42),
      Inl ''get song from genius api: unexpected status code: 404'')
   \<and> GetLyrics (demo_world [demo_hit] 200) demo_client ''A'' ''T'' =
     (fst (search (demo_world [demo_hit] 200) demo_client ''A T'')
        @ fst (getSong (demo_world [demo_hit] 200) demo_client 42)
        @ fst (getLyrics (demo_world [demo_hit] 200) demo_client ''/Artist-title-lyrics''),
      Inl ''scrape lyrics from genius webpage: parse HTML: unexpected EOF'')
   \<and> GetLyrics down_world demo_client ''A'' ''T'' =
     (fst (search down_world demo_client ''A T''),
      Inl ''search genius api: send request: dial tcp: connection refused'')"
proof -
  have q: "''A T'' = ''A'' @ '' '' @ ''T''" by simp
  have i: "ID (Result demo_hit) = 42" by (simp add: demo_hit_def)
  have h0: "Hits \<lparr>Hits = ([] :: hit list)\<rparr> = []" by simp
  have h1: "Hits \<lparr>Hits = [demo_hit]\<rparr> = demo_hit # []" by simp
  have e0: "''search genius api: '' @ ''send request: dial tcp: connection refused''
      = ''search genius api: send request: dial tcp: connection refused''" by simp
  note d = GetLyrics_stage_failure[OF q, of down_world demo_client
      "''send request: dial tcp: connection refused''"]
  have D: "GetLyrics down_world demo_client ''A'' ''T'' =
     (fst (search down_world demo_client ''A T''),
      Inl ''search genius api: send request: dial tcp: connection refused'')"
    using d down_search e0 by metis
  have p: "Path \<lparr>Path = ''/Artist-title-lyrics''\<rparr> = ''/Artist-title-lyrics''" by simp
  have e1: "''get song from genius api: '' @ ''unexpected status code: 404'' = ''get song from genius api: unexpected status code: 404''" by simp
  have e2: "''scrape lyrics from genius webpage: '' @ ''parse HTML: unexpected EOF'' = ''scrape lyrics from genius webpage: parse HTML: unexpected EOF''" by simp
  note a = GetLyrics_stage_failure[OF q, of "demo_world [] 200" demo_client _ "\<lparr>Hits = []\<rparr>"]
  note b = GetLyrics_stage_failure[OF q, of "demo_world [demo_hit] 404" demo_client
      "''unexpected status code: 404''" "\<lparr>Hits = [demo_hit]\<rparr>" demo_hit "[]"]
  note c = GetLyrics_stage_failure[OF q, of "demo_world [demo_hit] 200" demo_client
      "''parse HTML: unexpected EOF''" "\<lparr>Hits = [demo_hit]\<rparr>" demo_hit "[]" "\<lparr>Path = ''/Artist-title-lyrics''\<rparr>"]
  have A: "GetLyrics (demo_world [] 200) demo_client ''A'' ''T'' =
     (fst (search (demo_world [] 200) demo_client ''A T''), Inl ''no results'')"
    using a demo_search[of "[]" 200] h0 by metis
  have B: "GetLyrics (demo_world [demo_hit] 404) demo_client ''A'' ''T'' =
     (fst (search (demo_world [demo_hit] 404) demo_client ''A T'')
        @ fst (getSong (demo_world [demo_hit] 404) demo_client 42),
      Inl ''get song from genius api: unexpected status code: 404'')"
    using b demo_search[of "[demo_hit]" 404] h1 i demo_getSong_404[of "[demo_hit]"] e1 by metis
  have C: "GetLyrics (demo_world [demo_hit] 200) demo_client ''A'' ''T'' =
     (fst (search (demo_world [demo_hit] 200) demo_client ''A T'')
        @ fst (getSong (demo_world [demo_hit] 200) demo_client 42)
        @ fst (getLyrics (demo_world [demo_hit] 200) demo_client ''/Artist-title-lyrics''),
      Inl ''scrape lyrics from genius webpage: parse HTML: unexpected EOF'')"
    using c demo_search[of "[demo_hit]" 200] h1 i demo_getSong_200[of "[demo_hit]"] p
      demo_getLyrics[of "[demo_hit]"] e2 by metis
  show ?thesis using A B C D by blast
qed

text \<open>
  Claim C7 as stated fails when the search answers with an empty hit list: the fetch
  fails after the search stage, the only stage entered, and the error message
  \<^verbatim>\<open>no results\<close> does not carry that stage's name.
\<close>

theorem GetLyrics_no_results_unwrapped_counterexample:
  "snd (GetLyrics (demo_world [] 200) demo_client ''A'' ''T'') = Inl ''no results''
   \<and> stage_calls (fst (GetLyrics (demo_world [] 200) demo_client ''A'' ''T'')) = [CallSearch ''A T'']
   \<and> \<not> Contains ''no results'' ''search genius api''"
  by (simp add: GetLyrics_def stage_calls_def demo_ev)

text \<open>
  Claim C5. For every parsed page (a document whose nodes have distinct addresses and
  where only elements have children), the scrape selects all the nodes below the root
  that carry the lyrics-container attribute, in document order; its text is the
  concatenation, in that order, of what each container renders to once every node
  below it that carries the excluded-from-selection attribute is removed (nothing for
  a container whose rendering fails), and no excluded node is left in what is
  rendered; \<^verbatim>\<open>getLyrics\<close> fails with \<^verbatim>\<open>no lyrics found on page\<close> exactly when
  that concatenation is empty. The removal is done in the shared document, container
  after container; the result is the same as if each container were treated alone.
\<close>

theorem scrape_concatenates_containers:
  assumes "wf_document doc"
  shows "Find lyrics_container doc = filter lyrics_container (below doc)
   \<and> scrape w doc = concat (map (container_content w) (Find lyrics_container doc))
   \<and> (\<forall>c. Find exclude_from_selection (strip_excluded c) = [])
   \<and> (scrape_page w doc = Inl ''no lyrics found on page'' \<longleftrightarrow> scrape w doc = [])
   \<and> (url_error w (''https://genius.com'' @ path) = None
        \<and> Do w \<lparr>Method = ''GET'', URL = ''https://genius.com'' @ path, Header = []\<rparr> = Inr resp
        \<and> StatusCode resp = 200 \<and> NewDocumentFromReader w (Body resp) = Inr doc
      \<longrightarrow> snd (getLyrics w c path) = scrape_page w doc)"
  using Find_filter[of lyrics_container doc] lyrics_element wf_leaf_children_doc[OF assms]
    scrape_characterised[OF assms] Find_strip_excluded scrape_page_no_lyrics
    getLyrics_page[of w path resp doc c]
  by blast

theorem scrape_concatenates_containers_witness:
  "wf_document demo_page
   \<and> scrape page_world demo_page = ''la<br/><div>li</div>inlilo''
   \<and> scrape_page page_world demo_page \<noteq> Inl ''no lyrics found on page''
   \<and> snd (getLyrics page_world demo_client ''/song'') = Inr ''la\<newline>liinlilo''"
proof -
  note t = scrape_concatenates_containers[OF wf_demo_page, of page_world "''/song''"
      "\<lparr>StatusCode = 200, Body = []\<rparr>" demo_client]
  have s: "scrape page_world demo_page = ''la<br/><div>li</div>inlilo''"
    using t demo_contents by simp
  have "scrape page_world demo_page \<noteq> []" unfolding s by simp
  then have n: "scrape_page page_world demo_page \<noteq> Inl ''no lyrics found on page''"
    using t by blast
  have "url_error page_world (''https://genius.com'' @ ''/song'') = None
        \<and> Do page_world \<lparr>Method = ''GET'', URL = ''https://genius.com'' @ ''/song'', Header = []\<rparr>
            = Inr \<lparr>StatusCode = 200, Body = []\<rparr>
        \<and> StatusCode \<lparr>StatusCode = 200, Body = []\<rparr> = 200
        \<and> NewDocumentFromReader page_world (Body \<lparr>StatusCode = 200, Body = []\<rparr>) = Inr demo_page"
    by (simp add: page_world_def)
  then have g: "snd (getLyrics page_world demo_client ''/song'') = scrape_page page_world demo_page"
    using t by blast
  show ?thesis using s n g wf_demo_page demo_page_lyrics by simp
qed



section \<open>Properties of the configuration file\<close>

text \<open>
  Claim C8, as amended. When the path of the configuration file is determined (the
  home directory is known or \<^verbatim>\<open>XDG_CONFIG_HOME\<close> is set, and the directory can be
  created) and the file does not exist, \<^verbatim>\<open>LoadConfig\<close> returns a configuration with
  an empty credential and no error. A failure to determine the path, a read failure
  other than absence, and a parse failure each yield an error.
\<close>

theorem LoadConfig_missing_file:
  "(getConfigPath w = Inl err \<longrightarrow>
      LoadConfig w = (\<lparr>GeniusAccessToken = []\<rparr>, Some (''get config path: '' @ err)))
   \<and> (getConfigPath w = Inr configPath \<and> ReadFile w configPath = Inl e \<and> IsNotExist e \<longrightarrow>
      LoadConfig w = (\<lparr>GeniusAccessToken = []\<rparr>, None))
   \<and> (getConfigPath w = Inr configPath \<and> ReadFile w configPath = Inl e \<and> \<not> IsNotExist e \<longrightarrow>
      LoadConfig w = (\<lparr>GeniusAccessToken = []\<rparr>, Some (''read config file: '' @ Error e)))
   \<and> (getConfigPath w = Inr configPath \<and> ReadFile w configPath = Inr data
        \<and> snd (Unmarshal w data \<lparr>GeniusAccessToken = []\<rparr>) = Some perr \<longrightarrow>
      snd (LoadConfig w) = Some (''parse config file: '' @ perr))
   \<and> (getConfigPath w = Inr configPath \<and> ReadFile w configPath = Inr data
        \<and> snd (Unmarshal w data \<lparr>GeniusAccessToken = []\<rparr>) = None \<longrightarrow>
      LoadConfig w = (fst (Unmarshal w data \<lparr>GeniusAccessToken = []\<rparr>), None))"
  by (auto simp: LoadConfig_def Wrap_def Let_def split: prod.splits option.splits)

theorem LoadConfig_missing_file_witness:
  "LoadConfig (demo_os ''/cfg'' None (Inl (OsError True ''open /cfg/lyrics/config.json: no such file or directory'')))
     = (\<lparr>GeniusAccessToken = []\<rparr>, None)
   \<and> LoadConfig (demo_os ''/cfg'' None (Inl (OsError False ''open /cfg/lyrics/config.json: permission denied'')))
     = (\<lparr>GeniusAccessToken = []\<rparr>, Some ''read config file: open /cfg/lyrics/config.json: permission denied'')
   \<and> snd (LoadConfig (demo_os ''/cfg'' None (Inr ''{''))) = Some ''parse config file: unexpected end of JSON input''
   \<and> LoadConfig (demo_os ''/cfg'' (Some (OsError False ''mkdir /cfg/lyrics: permission denied'')) (Inr ''{}''))
     = (\<lparr>GeniusAccessToken = []\<rparr>, Some ''get config path: create config directory: mkdir /cfg/lyrics: permission denied'')
   \<and> LoadConfig (demo_os ''/cfg'' None (Inr ''{}'')) = (\<lparr>GeniusAccessToken = []\<rparr>, None)"
proof -
  let ?ne = "OsError True ''open /cfg/lyrics/config.json: no such file or directory''"
  let ?pd = "OsError False ''open /cfg/lyrics/config.json: permission denied''"
  let ?mk = "OsError False ''mkdir /cfg/lyrics: permission denied''"
  have r: "\<And>mk rd p. ReadFile (demo_os ''/cfg'' mk rd) p = rd" by (simp add: demo_os_def)
  have u: "snd (Unmarshal (demo_os ''/cfg'' None (Inr ''{'')) ''{'' \<lparr>GeniusAccessToken = []\<rparr>) = Some ''unexpected end of JSON input''"
    by (simp add: demo_os_def)
  have A: "LoadConfig (demo_os ''/cfg'' None (Inl ?ne)) = (\<lparr>GeniusAccessToken = []\<rparr>, None)"
    using LoadConfig_missing_file[of "demo_os ''/cfg'' None (Inl ?ne)" _ "''/cfg/lyrics/config.json''" ?ne]
      demo_path[of "Inl ?ne"] r[of None "Inl ?ne"] by simp
  have B: "LoadConfig (demo_os ''/cfg'' None (Inl ?pd))
     = (\<lparr>GeniusAccessToken = []\<rparr>, Some ''read config file: open /cfg/lyrics/config.json: permission denied'')"
    using LoadConfig_missing_file[of "demo_os ''/cfg'' None (Inl ?pd)" _ "''/cfg/lyrics/config.json''" ?pd]
      demo_path[of "Inl ?pd"] r[of None "Inl ?pd"] by simp
  have C: "snd (LoadConfig (demo_os ''/cfg'' None (Inr ''{''))) = Some ''parse config file: unexpected end of JSON input''"
    using LoadConfig_missing_file[of "demo_os ''/cfg'' None (Inr ''{'')" _ "''/cfg/lyrics/config.json''" _ "''{''"
        "''unexpected end of JSON input''"]
      demo_path[of "Inr ''{''"] r[of None "Inr ''{''"] u by simp
  have D: "LoadConfig (demo_os ''/cfg'' (Some ?mk) (Inr ''{}''))
     = (\<lparr>GeniusAccessToken = []\<rparr>, Some ''get config path: create config directory: mkdir /cfg/lyrics: permission denied'')"
    using LoadConfig_missing_file[of "demo_os ''/cfg'' (Some ?mk) (Inr ''{}'')" "''create config directory: mkdir /cfg/lyrics: permission denied''"]
      demo_path_err[of "Inr ''{}''"] by simp
  have u': "Unmarshal (demo_os ''/cfg'' None (Inr ''{}'')) ''{}'' \<lparr>GeniusAccessToken = []\<rparr>
      = (\<lparr>GeniusAccessToken = []\<rparr>, None)"
    by (simp add: demo_os_def)
  have E: "LoadConfig (demo_os ''/cfg'' None (Inr ''{}'')) = (\<lparr>GeniusAccessToken = []\<rparr>, None)"
    using LoadConfig_missing_file[of "demo_os ''/cfg'' None (Inr ''{}'')" _ "''/cfg/lyrics/config.json''" _ "''{}''"]
      demo_path[of "Inr ''{}''"] r[of None "Inr ''{}''"] u' by simp
  show ?thesis using A B C D E by blast
qed

text \<open>
  Claim C8 as stated fails when the directory of the configuration file cannot be
  created: the file does not exist, and \<^verbatim>\<open>LoadConfig\<close> returns an error.
\<close>

theorem LoadConfig_missing_file_counterexample:
  "ReadFile (demo_os ''/cfg'' (Some (OsError False ''mkdir /cfg/lyrics: permission denied''))
              (Inl (OsError True ''open /cfg/lyrics/config.json: no such file or directory'')))
            ''/cfg/lyrics/config.json''
     = Inl (OsError True ''open /cfg/lyrics/config.json: no such file or directory'')
   \<and> IsNotExist (OsError True ''open /cfg/lyrics/config.json: no such file or directory'')
   \<and> LoadConfig (demo_os ''/cfg'' (Some (OsError False ''mkdir /cfg/lyrics: permission denied''))
              (Inl (OsError True ''open /cfg/lyrics/config.json: no such file or directory'')))
     = (\<lparr>GeniusAccessToken = []\<rparr>,
        Some ''get config path: create config directory: mkdir /cfg/lyrics: permission denied'')"
  by (simp add: LoadConfig_def os_ev)

section \<open>Properties of the event loop\<close>

text \<open>
  Claim C1, as amended. A pending fetch may complete at any moment, whatever the current
  track is by then; \<^verbatim>\<open>Update\<close> applies its result to the displayed state as it
  arrives, without comparing the track it was issued for with the current track: the
  content shown becomes the result's lyrics, centred, or its error, and the current
  artist and title stay. So of two fetches issued in succession for different tracks,
  each result is displayed when it arrives, and after both what is displayed is the
  result of the one that completed last.
\<close>

theorem lyrics_result_applied_on_arrival:
  "step center (m, xs @ FetchLyricsCmd client artist album title # ys)
        (fst (Update center m (fetchLyricsCmd w client artist album title)), xs @ ys)
   \<and> Content (viewport (fst (Update center m (fetchLyricsCmd w client artist album title))))
        = shown center m (snd (GetLyrics w client artist title))
   \<and> m_artist (fst (Update center m (fetchLyricsCmd w client artist album title))) = m_artist m
   \<and> m_title (fst (Update center m (fetchLyricsCmd w client artist album title))) = m_title m
   \<and> Content (viewport (fst (Update center
          (fst (Update center m (fetchLyricsCmd w client artist album title)))
          (fetchLyricsCmd w' client' artist' album' title'))))
        = shown center m (snd (GetLyrics w' client' artist' title'))"
proof -
  let ?m1 = "fst (Update center m (fetchLyricsCmd w client artist album title))"
  have u: "Update center m (fetchLyricsCmd w client artist album title) = (?m1, [])"
    by (simp add: Update_fetch_result)
  have 1: "step center (m, xs @ FetchLyricsCmd client artist album title # ys) (?m1, xs @ ys)"
    using step.completes[OF delivers.fetch u, of xs ys] by simp
  have 2: "Content (viewport (fst (Update center ?m1 (fetchLyricsCmd w' client' artist' album' title'))))
        = shown center m (snd (GetLyrics w' client' artist' title'))"
    using Update_fetch_content[of center ?m1 w' client' artist' album' title']
      shown_width[of ?m1 m center] Update_fetch_track[of center m w client artist album title]
    by simp
  show ?thesis
    using 1 2 Update_fetch_content[of center m w client artist album title]
      Update_fetch_track[of center m w client artist album title]
    by blast
qed

theorem lyrics_result_applied_on_arrival_witness:
  "Content (viewport (fst (Update plain
          (fst (Update plain demo_m2 (fetchLyricsCmd (lyr_world ''lyrics of B'') demo_client ''B'' [] ''T2'')))
          (fetchLyricsCmd (lyr_world ''lyrics of A'') demo_client ''A'' [] ''T1''))))
     = ''lyrics of A''
   \<and> Content (viewport (fst (Update plain
          (fst (Update plain demo_m2 (fetchLyricsCmd (lyr_world ''lyrics of A'') demo_client ''A'' [] ''T1'')))
          (fetchLyricsCmd (lyr_world ''lyrics of B'') demo_client ''B'' [] ''T2''))))
     = ''lyrics of B''"
proof -
  have a: "shown plain demo_m2 (snd (GetLyrics (lyr_world ''lyrics of A'') demo_client ''A'' ''T1'')) = ''lyrics of A''"
    by (simp add: lyr_world_GetLyrics lyrics_of_A shown_def centerText_plain)
  have b: "shown plain demo_m2 (snd (GetLyrics (lyr_world ''lyrics of B'') demo_client ''B'' ''T2'')) = ''lyrics of B''"
    by (simp add: lyr_world_GetLyrics lyrics_of_B shown_def centerText_plain)
  show ?thesis
    using lyrics_result_applied_on_arrival[of plain demo_m2 "[]" demo_client "''B''" "[]" "''T2''" "[]"
        "lyr_world ''lyrics of B''" "lyr_world ''lyrics of A''" demo_client "''A''" "[]" "''T1''"]
      lyrics_result_applied_on_arrival[of plain demo_m2 "[]" demo_client "''A''" "[]" "''T1''" "[]"
        "lyr_world ''lyrics of A''" "lyr_world ''lyrics of B''" demo_client "''B''" "[]" "''T2''"]
      a b by metis
qed

text \<open>
  Claim C1 as stated fails on a run of the program: the player reports track A, then
  track B while the fetch for A is pending; the fetch for B completes, then the fetch
  for A; at the end the current track is B and the lyrics displayed are those of A.
\<close>

theorem stale_result_displayed_counterexample:
  "step plain (demo_m0, [CheckCmusCmd]) (demo_m1, [Tick, FetchLyricsCmd demo_client ''A'' [] ''T1''])
   \<and> step plain (demo_m1, [Tick, FetchLyricsCmd demo_client ''A'' [] ''T1''])
                 (demo_m1, [FetchLyricsCmd demo_client ''A'' [] ''T1'', CheckCmusCmd])
   \<and> step plain (demo_m1, [FetchLyricsCmd demo_client ''A'' [] ''T1'', CheckCmusCmd])
                 (demo_m2, [FetchLyricsCmd demo_client ''A'' [] ''T1'', Tick,
                            FetchLyricsCmd demo_client ''B'' [] ''T2''])
   \<and> step plain (demo_m2, [FetchLyricsCmd demo_client ''A'' [] ''T1'', Tick,
                            FetchLyricsCmd demo_client ''B'' [] ''T2''])
                 (demo_m3, [FetchLyricsCmd demo_client ''A'' [] ''T1'', Tick])
   \<and> step plain (demo_m3, [FetchLyricsCmd demo_client ''A'' [] ''T1'', Tick]) (demo_m4, [Tick])
   \<and> m_artist demo_m4 = ''B'' \<and> m_title demo_m4 = ''T2''
   \<and> m_lyrics demo_m4 = ''lyrics of A'' \<and> Content (viewport demo_m4) = ''lyrics of A''"
proof -
  let ?FA = "FetchLyricsCmd demo_client ''A'' [] ''T1''"
  let ?FB = "FetchLyricsCmd demo_client ''B'' [] ''T2''"
  have u1: "Update plain demo_m0 (checkCmusCmd (''status playing\<newline>tag artist A\<newline>tag title T1'', None))
      = (demo_m1, [Tick, ?FA])"
    unfolding poll_A by (rule demo_m1_eq)
  have u2: "Update plain demo_m1 CheckCmusTick = (demo_m1, [CheckCmusCmd])" by simp
  have u3: "Update plain demo_m1 (checkCmusCmd (''status playing\<newline>tag artist B\<newline>tag title T2'', None))
      = (demo_m2, [Tick, ?FB])"
    unfolding poll_B by (rule demo_m2_eq)
  have u4: "Update plain demo_m2 (fetchLyricsCmd (lyr_world ''lyrics of B'') demo_client ''B'' [] ''T2'')
      = (demo_m3, [])"
    unfolding result_B by (rule demo_m3_eq)
  have u5: "Update plain demo_m3 (fetchLyricsCmd (lyr_world ''lyrics of A'') demo_client ''A'' [] ''T1'')
      = (demo_m4, [])"
    unfolding result_A by (rule demo_m4_eq)
  have 1: "step plain (demo_m0, [CheckCmusCmd]) (demo_m1, [Tick, ?FA])"
    using step.completes[OF delivers.poll u1, of "[]" "[]"] by simp
  have 2: "step plain (demo_m1, [Tick, ?FA]) (demo_m1, [?FA, CheckCmusCmd])"
    using step.completes[OF delivers.tick u2, of "[]" "[?FA]"] by simp
  have 3: "step plain (demo_m1, [?FA, CheckCmusCmd]) (demo_m2, [?FA, Tick, ?FB])"
    using step.completes[OF delivers.poll u3, of "[?FA]" "[]"] by simp
  have 4: "step plain (demo_m2, [?FA, Tick, ?FB]) (demo_m3, [?FA, Tick])"
    using step.completes[OF delivers.fetch u4, of "[?FA, Tick]" "[]"] by simp
  have 5: "step plain (demo_m3, [?FA, Tick]) (demo_m4, [Tick])"
    using step.completes[OF delivers.fetch u5, of "[]" "[Tick]"] by simp
  show ?thesis using 1 2 3 4 5 demo_m4_fields by blast
qed

end
